theory Spec2Isabelle
  imports Main "HOL-Library.Sublist" "HOL-Library.Char_ord" "HOL-Library.List_Lexorder"
    "HOL-Library.Multiset"
begin

section \<open>The dataset adapters of \<^verbatim>\<open>datasets/div2k.py\<close>\<close>

text \<open>
  The module pairs the files of a high-resolution directory with the files of one
  directory per requested (track, scale) pair. The embedding keeps the structure of the
  Python source: the classes \<^verbatim>\<open>Folder\<close> and \<^verbatim>\<open>FolderByDir\<close> are records (the second
  extends the first), the class attributes \<^verbatim>\<open>urls\<close> and \<^verbatim>\<open>track_dirs\<close> are
  association lists in the order of the dictionary literals, every \<^verbatim>\<open>raise\<close> is a
  value \<open>Inl e\<close>, and every method that may touch the outside world takes the world and
  returns it, extended by the events it caused.
\<close>

subsection \<open>Errors, events and the world\<close>

datatype error =
    ValueError string
  | IndexError
  | OSError string
  | ExternalError string

text \<open>
  The only effects of the module are \<^verbatim>\<open>os.listdir\<close> and the download utility of
  torchvision. The world holds what \<^verbatim>\<open>os.listdir\<close> answers for each path (\<open>None\<close>
  where it raises \<^verbatim>\<open>OSError\<close>: no such directory, not a directory, no permission) and
  the events that happened so far, oldest first.
\<close>

datatype event =
    ListDir string
  | Download string string string

record world =
  files :: "string \<Rightarrow> string list option"
  trace :: "event list"

text \<open>
  What the Python runtime and the libraries decide, and the module only calls:
  \<^verbatim>\<open>os.path.expanduser\<close>, \<^verbatim>\<open>repr\<close> of a string, the iteration order of a set of
  strings, and what \<^verbatim>\<open>download_and_extract_archive\<close> does to the directory tree
  (it may raise).
\<close>

record runtime =
  expanduser :: "string \<Rightarrow> string"
  repr_str :: "string \<Rightarrow> string"
  list_of_set :: "string set \<Rightarrow> string list"
  fetch :: "string \<Rightarrow> string \<Rightarrow> string \<Rightarrow> (string \<Rightarrow> string list option)
              \<Rightarrow> error + (string \<Rightarrow> string list option)"

subsection \<open>Strings and paths\<close>

text \<open>\<^verbatim>\<open>posixpath.join(a, *p)\<close>: a component that starts with a slash restarts the path.\<close>

definition join_step :: "string \<Rightarrow> string \<Rightarrow> string" where
  "join_step path b =
     (if b \<noteq> [] \<and> hd b = CHR ''/'' then b
      else if path = [] \<or> last path = CHR ''/'' then path @ b
      else path @ ''/'' @ b)"

definition os_path_join :: "string \<Rightarrow> string list \<Rightarrow> string" where
  "os_path_join a p = foldl join_step a p"

text \<open>\<^verbatim>\<open>str(n)\<close> for an integer, as the f-strings of the error messages format it.\<close>

definition digit_char :: "nat \<Rightarrow> char" where
  "digit_char d = ''0123456789'' ! d"

fun str_nat :: "nat \<Rightarrow> string" where
  "str_nat n = (if n < 10 then [digit_char n] else str_nat (n div 10) @ [digit_char (n mod 10)])"

declare str_nat.simps [simp del]

definition str_int :: "int \<Rightarrow> string" where
  "str_int i = (if i < 0 then ''-'' @ str_nat (nat (- i)) else str_nat (nat i))"

text \<open>\<^verbatim>\<open>str\<close> of a list of strings: the \<^verbatim>\<open>repr\<close> of each, separated by a comma and a space.\<close>

fun comma_sep :: "string list \<Rightarrow> string" where
  "comma_sep [] = []"
| "comma_sep [x] = x"
| "comma_sep (x # y # zs) = x @ '', '' @ comma_sep (y # zs)"

definition str_list :: "runtime \<Rightarrow> string list \<Rightarrow> string" where
  "str_list rt xs = ''['' @ comma_sep (map (repr_str rt) xs) @ '']''"

subsection \<open>The classes\<close>

type_synonym key = "string \<times> string \<times> int"

text \<open>The class attributes that a subclass of \<^verbatim>\<open>FolderByDir\<close> overrides.\<close>

record dataset_class =
  urls :: "(string \<times> string) list"
  track_dirs :: "(key \<times> string) list"

datatype scale_arg = ScaleInt int | ScaleList "int list"

datatype track_arg = TrackStr string | TrackList "string list"

text \<open>
  The attributes of the objects. The loader and the transform are supplied by the
  caller and may raise; the transform, when there is one, receives the list of loaded
  images and its result is returned as it is.
\<close>

record 'img folder =
  root :: string
  loader :: "string \<Rightarrow> error + 'img"
  transform :: "('img list \<Rightarrow> error + 'img list) option"
  scales :: "int list"
  samples :: "string list list"

record 'img folder_by_dir = "'img folder" +
  split :: string
  tracks :: "string list"

subsection \<open>Folder\<close>

definition Folder_init ::
  "runtime \<Rightarrow> string \<Rightarrow> int list \<Rightarrow> ('img list \<Rightarrow> error + 'img list) option
     \<Rightarrow> (string \<Rightarrow> error + 'img) \<Rightarrow> 'img folder" where
  "Folder_init rt root0 scales0 transform0 loader0 =
     \<lparr>root = expanduser rt root0, loader = loader0, transform = transform0,
      scales = scales0, samples = []\<rparr>"

text \<open>The list comprehension over the paths of one sample: the first failing load raises.\<close>

fun load_all :: "(string \<Rightarrow> error + 'img) \<Rightarrow> string list \<Rightarrow> error + 'img list" where
  "load_all ld [] = Inr []"
| "load_all ld (p # ps) =
     (case ld p of
        Inl e \<Rightarrow> Inl e
      | Inr img \<Rightarrow> (case load_all ld ps of Inl e \<Rightarrow> Inl e | Inr imgs \<Rightarrow> Inr (img # imgs)))"

text \<open>\<^verbatim>\<open>self.samples[index]\<close> is Python list indexing: a negative index counts from the end.\<close>

definition Folder_getitem :: "('img, 'm) folder_scheme \<Rightarrow> int \<Rightarrow> error + 'img list" where
  "Folder_getitem self index =
     (let n = int (length (samples self));
          j = (if index < 0 then n + index else index)
      in if 0 \<le> j \<and> j < n then
           (case load_all (loader self) (samples self ! nat j) of
              Inl e \<Rightarrow> Inl e
            | Inr images \<Rightarrow>
                (case transform self of None \<Rightarrow> Inr images | Some f \<Rightarrow> f images))
         else Inl IndexError)"

definition Folder_len :: "('img, 'm) folder_scheme \<Rightarrow> nat" where
  "Folder_len self = length (samples self)"

subsection \<open>FolderByDir\<close>

definition get_tracks :: "dataset_class \<Rightarrow> string set" where
  "get_tracks cls = set (map (\<lambda>((t, sp, sc), d). t) (track_dirs cls))"

definition get_splits :: "dataset_class \<Rightarrow> string set" where
  "get_splits cls = set (map (\<lambda>((t, sp, sc), d). sp) (track_dirs cls))"

definition has_split :: "dataset_class \<Rightarrow> string \<Rightarrow> bool" where
  "has_split cls sp = (sp \<in> get_splits cls)"

definition get_dir ::
  "runtime \<Rightarrow> dataset_class \<Rightarrow> ('img, 'm) folder_by_dir_scheme \<Rightarrow> string \<Rightarrow> string \<Rightarrow> int
     \<Rightarrow> world \<Rightarrow> (error + string) \<times> world" where
  "get_dir rt cls self track sp scale w =
     (case map_of (track_dirs cls) (track, sp, scale) of
        None \<Rightarrow>
          if track \<notin> get_tracks cls then
            (Inl (ValueError (''Track '' @ track @ '' does not exist. Use one of ''
                              @ str_list rt (list_of_set rt (get_tracks cls)))), w)
          else if sp \<notin> get_splits cls then
            (Inl (ValueError (''Split '' @ sp @ '' is not valid'')), w)
          else
            (Inl (ValueError (''Div2K track '' @ track @ '' does not include scale X''
                              @ str_int scale)), w)
      | Some d \<Rightarrow> (Inr (os_path_join (root self) [d]), w))"

definition listdir :: "string \<Rightarrow> world \<Rightarrow> (error + string list) \<times> world" where
  "listdir p w =
     (case files w p of None \<Rightarrow> Inl (OSError p) | Some names \<Rightarrow> Inr names,
      w\<lparr>trace := trace w @ [ListDir p]\<rparr>)"

text \<open>
  \<^verbatim>\<open>sorted\<close> compares Python strings code point by code point; \<open>sort\<close> on
  \<open>string\<close> is the lexicographic order with characters compared by their code.
\<close>

definition list_samples ::
  "runtime \<Rightarrow> dataset_class \<Rightarrow> ('img, 'm) folder_by_dir_scheme \<Rightarrow> string \<Rightarrow> string \<Rightarrow> int
     \<Rightarrow> world \<Rightarrow> (error + string list) \<times> world" where
  "list_samples rt cls self track sp scale w =
     (case get_dir rt cls self track sp scale w of
        (Inl e, w1) \<Rightarrow> (Inl e, w1)
      | (Inr track_dir, w1) \<Rightarrow>
          (case listdir track_dir w1 of
             (Inl e, w2) \<Rightarrow> (Inl e, w2)
           | (Inr names, w2) \<Rightarrow>
               (Inr (map (\<lambda>s. os_path_join track_dir [s]) (sort names)), w2)))"

text \<open>The pairs that \<^verbatim>\<open>init_samples\<close> walks through.\<close>

definition all_tracks ::
  "dataset_class \<Rightarrow> ('img, 'm) folder_by_dir_scheme \<Rightarrow> (string \<times> int) list" where
  "all_tracks cls self =
     (if map_of (track_dirs cls) (''hr'', split self, 1) \<noteq> None
      then zip (''hr'' # tracks self) (1 # scales self)
      else zip (tracks self) (scales self))"

text \<open>The first loop of \<^verbatim>\<open>init_samples\<close>: one listing per pair, in order.\<close>

fun list_tracks ::
  "runtime \<Rightarrow> dataset_class \<Rightarrow> ('img, 'm) folder_by_dir_scheme \<Rightarrow> (string \<times> int) list
     \<Rightarrow> world \<Rightarrow> (error + string list list) \<times> world" where
  "list_tracks rt cls self [] w = (Inr [], w)"
| "list_tracks rt cls self ((track, scale) # rest) w =
     (case list_samples rt cls self track (split self) scale w of
        (Inl e, w1) \<Rightarrow> (Inl e, w1)
      | (Inr l, w1) \<Rightarrow>
          (case list_tracks rt cls self rest w1 of
             (Inl e, w2) \<Rightarrow> (Inl e, w2)
           | (Inr ls, w2) \<Rightarrow> (Inr (l # ls), w2)))"

text \<open>
  The second loop, over \<^verbatim>\<open>enumerate(samples[1:])\<close>, with \<open>n0\<close> the length of
  \<^verbatim>\<open>samples[0]\<close>. The message reads \<^verbatim>\<open>self.tracks[i]\<close> and \<^verbatim>\<open>self.scales[i]\<close>.
\<close>

definition mismatch_message :: "string \<Rightarrow> int \<Rightarrow> string" where
  "mismatch_message track scale =
     ''Number of files for '' @ track @ ''X'' @ str_int scale @ '' does not match HR''"

fun check_counts ::
  "string list \<Rightarrow> int list \<Rightarrow> nat \<Rightarrow> nat \<Rightarrow> string list list \<Rightarrow> error option" where
  "check_counts tr sc n0 i [] = None"
| "check_counts tr sc n0 i (s # rest) =
     (if length s \<noteq> n0 then
        (if i < length tr \<and> i < length sc
         then Some (ValueError (mismatch_message (tr ! i) (sc ! i)))
         else Some IndexError)
      else check_counts tr sc n0 (Suc i) rest)"

definition init_samples ::
  "runtime \<Rightarrow> dataset_class \<Rightarrow> ('img, 'm) folder_by_dir_scheme \<Rightarrow> world
     \<Rightarrow> (error + unit) \<times> ('img, 'm) folder_by_dir_scheme \<times> world" where
  "init_samples rt cls self w =
     (case list_tracks rt cls self (all_tracks cls self) w of
        (Inl e, w1) \<Rightarrow> (Inl e, self, w1)
      | (Inr lsts, w1) \<Rightarrow>
          (case (case lsts of [] \<Rightarrow> None
                 | s0 # rest \<Rightarrow> check_counts (tracks self) (scales self) (length s0) 0 rest) of
             Some e \<Rightarrow> (Inl e, self, w1)
           | None \<Rightarrow>
               (case lsts of
                  [] \<Rightarrow> (Inl IndexError, self\<lparr>samples := []\<rparr>, w1)
                | s0 # rest \<Rightarrow>
                    (Inr (),
                     self\<lparr>samples := map (\<lambda>i. map (\<lambda>s. s ! i) lsts) [0..<length s0]\<rparr>,
                     w1))))"

text \<open>
  \<^verbatim>\<open>download_and_extract_archive\<close> belongs to torchvision: the model records the call
  and lets the runtime decide the new directory tree, or the error.
\<close>

definition download_and_extract_archive ::
  "runtime \<Rightarrow> string \<Rightarrow> string \<Rightarrow> string \<Rightarrow> world \<Rightarrow> (error + unit) \<times> world" where
  "download_and_extract_archive rt url dir md5 w =
     (let w1 = w\<lparr>trace := trace w @ [Download url dir md5]\<rparr>
      in case fetch rt url dir md5 (files w) of
           Inl e \<Rightarrow> (Inl e, w1)
         | Inr fs \<Rightarrow> (Inr (), w1\<lparr>files := fs\<rparr>))"

fun download_all ::
  "runtime \<Rightarrow> string \<Rightarrow> (string \<times> string) list \<Rightarrow> world \<Rightarrow> (error + unit) \<times> world" where
  "download_all rt dir [] w = (Inr (), w)"
| "download_all rt dir ((url, md5sum) # rest) w =
     (case download_and_extract_archive rt url dir md5sum w of
        (Inl e, w1) \<Rightarrow> (Inl e, w1)
      | (Inr u, w1) \<Rightarrow> download_all rt dir rest w1)"

definition download ::
  "runtime \<Rightarrow> dataset_class \<Rightarrow> ('img, 'm) folder_by_dir_scheme \<Rightarrow> world
     \<Rightarrow> (error + unit) \<times> world" where
  "download rt cls self w = download_all rt (root self) (urls cls) w"

text \<open>The first lines of the constructor: a single scale or track becomes a list.\<close>

definition scale_list :: "scale_arg \<Rightarrow> int list" where
  "scale_list scale = (case scale of ScaleInt n \<Rightarrow> [n] | ScaleList ns \<Rightarrow> ns)"

definition track_list :: "track_arg \<Rightarrow> int list \<Rightarrow> string list" where
  "track_list track scale =
     (case track of TrackStr t \<Rightarrow> replicate (length scale) t | TrackList ts \<Rightarrow> ts)"

text \<open>The object when \<^verbatim>\<open>super().__init__\<close> has returned, before any download or listing.\<close>

definition new_self ::
  "runtime \<Rightarrow> string \<Rightarrow> int list \<Rightarrow> string list \<Rightarrow> string
     \<Rightarrow> ('img list \<Rightarrow> error + 'img list) option \<Rightarrow> (string \<Rightarrow> error + 'img)
     \<Rightarrow> 'img folder_by_dir" where
  "new_self rt root0 scale track sp transform0 loader0 =
     folder.extend (Folder_init rt root0 scale transform0 loader0)
       (folder_by_dir.fields sp track)"

definition FolderByDir_init ::
  "runtime \<Rightarrow> dataset_class \<Rightarrow> string \<Rightarrow> scale_arg \<Rightarrow> track_arg \<Rightarrow> string
     \<Rightarrow> ('img list \<Rightarrow> error + 'img list) option \<Rightarrow> (string \<Rightarrow> error + 'img) \<Rightarrow> bool
     \<Rightarrow> world \<Rightarrow> (error + 'img folder_by_dir) \<times> world" where
  "FolderByDir_init rt cls root0 scale0 track0 sp transform0 loader0 dl w =
     (let scale = scale_list scale0;
          track = track_list track0 scale
      in if length track \<noteq> length scale then
           (Inl (ValueError ''The number of scales and of tracks must be the same''), w)
         else
           (let self = new_self rt root0 scale track sp transform0 loader0
            in case (if dl then download rt cls self w else (Inr (), w)) of
                 (Inl e, w1) \<Rightarrow> (Inl e, w1)
               | (Inr u, w1) \<Rightarrow>
                   (case init_samples rt cls self w1 of
                      (Inl e, self1, w2) \<Rightarrow> (Inl e, w2)
                    | (Inr u1, self1, w2) \<Rightarrow> (Inr self1, w2))))"

subsection \<open>The datasets\<close>

text \<open>
  The subclasses only set the two class attributes and fix the directory below the root
  (and, for the benchmark sets, the track and the split). Every \<^verbatim>\<open>os.path.join\<close> of
  the tables is kept as a call.
\<close>

definition Div2K_urls :: "(string \<times> string) list" where
  "Div2K_urls =
     [(''http://data.vision.ee.ethz.ch/cvl/DIV2K/DIV2K_train_HR.zip'',
       ''bdc2d9338d4e574fe81bf7d158758658''),
      (''http://data.vision.ee.ethz.ch/cvl/DIV2K/DIV2K_train_LR_bicubic_X2.zip'',
       ''9a637d2ef4db0d0a81182be37fb00692''),
      (''http://data.vision.ee.ethz.ch/cvl/DIV2K/DIV2K_train_LR_bicubic_X3.zip'',
       ''ad80b9fe40c049a07a8a6c51bfab3b6d''),
      (''http://data.vision.ee.ethz.ch/cvl/DIV2K/DIV2K_train_LR_bicubic_X4.zip'',
       ''76c43ec4155851901ebbe8339846d93d''),
      (''http://data.vision.ee.ethz.ch/cvl/DIV2K/DIV2K_train_LR_unknown_X2.zip'',
       ''1396d023072c9aaeb999c28b81315233''),
      (''http://data.vision.ee.ethz.ch/cvl/DIV2K/DIV2K_train_LR_unknown_X3.zip'',
       ''4e651308aaa54d917fb1264395b7f6fa''),
      (''http://data.vision.ee.ethz.ch/cvl/DIV2K/DIV2K_train_LR_unknown_X4.zip'',
       ''e3c7febb1b3f78bd30f9ba15fe8e3956''),
      (''http://data.vision.ee.ethz.ch/cvl/DIV2K/DIV2K_train_LR_x8.zip'',
       ''613db1b855721b3d2b26f4194a1d22a6''),
      (''http://data.vision.ee.ethz.ch/cvl/DIV2K/DIV2K_train_LR_mild.zip'',
       ''807b3e3a5156f35bd3a86c5bbfb674bc''),
      (''http://data.vision.ee.ethz.ch/cvl/DIV2K/DIV2K_train_LR_difficult.zip'',
       ''5a8f2b9e0c5f5ed0dac271c1293662f4''),
      (''http://data.vision.ee.ethz.ch/cvl/DIV2K/DIV2K_train_LR_wild.zip'',
       ''d00982366bffee7c4739ba7ff1316b3b''),
      (''http://data.vision.ee.ethz.ch/cvl/DIV2K/DIV2K_valid_HR.zip'',
       ''9fcdda83005c5e5997799b69f955ff88''),
      (''http://data.vision.ee.ethz.ch/cvl/DIV2K/DIV2K_valid_LR_bicubic_X2.zip'',
       ''1512c9a3f7bde2a1a21a73044e46b9cb''),
      (''http://data.vision.ee.ethz.ch/cvl/DIV2K/DIV2K_valid_LR_bicubic_X3.zip'',
       ''18b1d310f9f88c13618c287927b29898''),
      (''http://data.vision.ee.ethz.ch/cvl/DIV2K/DIV2K_valid_LR_bicubic_X4.zip'',
       ''21962de700c8d368c6ff83314480eff0''),
      (''http://data.vision.ee.ethz.ch/cvl/DIV2K/DIV2K_valid_LR_unknown_X2.zip'',
       ''d319bd9033573d21de5395e6454f34f8''),
      (''http://data.vision.ee.ethz.ch/cvl/DIV2K/DIV2K_valid_LR_unknown_X3.zip'',
       ''05184168e3608b5c539fbfb46bcade4f''),
      (''http://data.vision.ee.ethz.ch/cvl/DIV2K/DIV2K_valid_LR_unknown_X4.zip'',
       ''8ac3413102bb3d0adc67012efb8a6c94''),
      (''http://data.vision.ee.ethz.ch/cvl/DIV2K/DIV2K_valid_LR_x8.zip'',
       ''c5aeea2004e297e9ff3abfbe143576a5''),
      (''http://data.vision.ee.ethz.ch/cvl/DIV2K/DIV2K_valid_LR_mild.zip'',
       ''8c433f812ca532eed62c11ec0de08370''),
      (''http://data.vision.ee.ethz.ch/cvl/DIV2K/DIV2K_valid_LR_difficult.zip'',
       ''1620af11bf82996bc94df655cb6490fe''),
      (''http://data.vision.ee.ethz.ch/cvl/DIV2K/DIV2K_valid_LR_wild.zip'',
       ''aacae8db6bec39151ca5bb9c80bf2f6c''),
      (''http://data.vision.ee.ethz.ch/cvl/DIV2K/DIV2K_test_LR_bicubic_X2.zip'',
       ''8acf28bea75077e0e7f091c5b2833740''),
      (''http://data.vision.ee.ethz.ch/cvl/DIV2K/DIV2K_test_LR_bicubic_X3.zip'',
       ''2379a7d09c0466e93783398873edd168''),
      (''http://data.vision.ee.ethz.ch/cvl/DIV2K/DIV2K_test_LR_bicubic_X4.zip'',
       ''6f7cc64f0d8da00b415edd1bc3ef50c3''),
      (''http://data.vision.ee.ethz.ch/cvl/DIV2K/DIV2K_test_LR_unknown_X2.zip'',
       ''8fbf73d6aaa28f88c1826db4527356cf''),
      (''http://data.vision.ee.ethz.ch/cvl/DIV2K/DIV2K_test_LR_unknown_X3.zip'',
       ''0da7370efb61d4a49be29e84c8071cfb''),
      (''http://data.vision.ee.ethz.ch/cvl/DIV2K/DIV2K_test_LR_unknown_X4.zip'',
       ''1bc4643dbadc18617aa19a865f1b2b28'')]"

definition Div2K_track_dirs :: "(key \<times> string) list" where
  "Div2K_track_dirs =
     [((''hr'', ''train'', 1), os_path_join ''DIV2K_train_HR'' []),
      ((''bicubic'', ''train'', 2), os_path_join ''DIV2K_train_LR_bicubic'' [''X2'']),
      ((''bicubic'', ''train'', 3), os_path_join ''DIV2K_train_LR_bicubic'' [''X3'']),
      ((''bicubic'', ''train'', 4), os_path_join ''DIV2K_train_LR_bicubic'' [''X4'']),
      ((''bicubic'', ''train'', 8), os_path_join ''DIV2K_train_LR_X8'' []),
      ((''unknown'', ''train'', 2), os_path_join ''DIV2K_train_LR_unknown'' [''X2'']),
      ((''unknown'', ''train'', 3), os_path_join ''DIV2K_train_LR_unknown'' [''X3'']),
      ((''unknown'', ''train'', 4), os_path_join ''DIV2K_train_LR_unknown'' [''X4'']),
      ((''real_mild'', ''train'', 4), os_path_join ''DIV2K_train_LR_mild'' []),
      ((''real_difficult'', ''train'', 4), os_path_join ''DIV2K_train_LR_difficult'' []),
      ((''hr'', ''val'', 1), os_path_join ''DIV2K_valid_HR'' []),
      ((''bicubic'', ''val'', 2), os_path_join ''DIV2K_valid_LR_bicubic'' [''X2'']),
      ((''bicubic'', ''val'', 3), os_path_join ''DIV2K_valid_LR_bicubic'' [''X3'']),
      ((''bicubic'', ''val'', 4), os_path_join ''DIV2K_valid_LR_bicubic'' [''X4'']),
      ((''bicubic'', ''val'', 8), os_path_join ''DIV2K_valid_LR_X8'' []),
      ((''unknown'', ''val'', 2), os_path_join ''DIV2K_valid_LR_unknown'' [''X2'']),
      ((''unknown'', ''val'', 3), os_path_join ''DIV2K_valid_LR_unknown'' [''X3'']),
      ((''unknown'', ''val'', 4), os_path_join ''DIV2K_valid_LR_unknown'' [''X4'']),
      ((''real_mild'', ''val'', 4), os_path_join ''DIV2K_valid_LR_mild'' []),
      ((''real_difficult'', ''val'', 4), os_path_join ''DIV2K_valid_LR_difficult'' []),
      ((''bicubic'', ''test'', 2), os_path_join ''DIV2K_test_LR_bicubic'' [''X2'']),
      ((''bicubic'', ''test'', 3), os_path_join ''DIV2K_test_LR_bicubic'' [''X3'']),
      ((''bicubic'', ''test'', 4), os_path_join ''DIV2K_test_LR_bicubic'' [''X4'']),
      ((''unknown'', ''test'', 2), os_path_join ''DIV2K_test_LR_unknown'' [''X2'']),
      ((''unknown'', ''test'', 3), os_path_join ''DIV2K_test_LR_unknown'' [''X3'']),
      ((''unknown'', ''test'', 4), os_path_join ''DIV2K_test_LR_unknown'' [''X4''])]"

definition Div2K :: dataset_class where
  "Div2K = \<lparr>urls = Div2K_urls, track_dirs = Div2K_track_dirs\<rparr>"

definition Set5_urls :: "(string \<times> string) list" where
  "Set5_urls =
     [(''https://cv.snu.ac.kr/research/EDSR/benchmark.tar'',
       ''4ace41d33c2384b97e6b320cd0afd6ba'')]"

definition Set5_track_dirs :: "(key \<times> string) list" where
  "Set5_track_dirs =
     [((''hr'', ''val'', 1), os_path_join ''benchmark'' [''Set5'', ''HR'']),
      ((''bicubic'', ''val'', 2), os_path_join ''benchmark'' [''Set5'', ''LR_bicubic'', ''X2'']),
      ((''bicubic'', ''val'', 3), os_path_join ''benchmark'' [''Set5'', ''LR_bicubic'', ''X3'']),
      ((''bicubic'', ''val'', 4), os_path_join ''benchmark'' [''Set5'', ''LR_bicubic'', ''X4''])]"

definition Set5 :: dataset_class where
  "Set5 = \<lparr>urls = Set5_urls, track_dirs = Set5_track_dirs\<rparr>"

definition Set14_urls :: "(string \<times> string) list" where
  "Set14_urls =
     [(''https://cv.snu.ac.kr/research/EDSR/benchmark.tar'',
       ''4ace41d33c2384b97e6b320cd0afd6ba'')]"

definition Set14_track_dirs :: "(key \<times> string) list" where
  "Set14_track_dirs =
     [((''hr'', ''val'', 1), os_path_join ''benchmark'' [''Set14'', ''HR'']),
      ((''bicubic'', ''val'', 2), os_path_join ''benchmark'' [''Set14'', ''LR_bicubic'', ''X2'']),
      ((''bicubic'', ''val'', 3), os_path_join ''benchmark'' [''Set14'', ''LR_bicubic'', ''X3'']),
      ((''bicubic'', ''val'', 4), os_path_join ''benchmark'' [''Set14'', ''LR_bicubic'', ''X4''])]"

definition Set14 :: dataset_class where
  "Set14 = \<lparr>urls = Set14_urls, track_dirs = Set14_track_dirs\<rparr>"

definition B100_urls :: "(string \<times> string) list" where
  "B100_urls =
     [(''https://cv.snu.ac.kr/research/EDSR/benchmark.tar'',
       ''4ace41d33c2384b97e6b320cd0afd6ba'')]"

definition B100_track_dirs :: "(key \<times> string) list" where
  "B100_track_dirs =
     [((''hr'', ''val'', 1), os_path_join ''benchmark'' [''B100'', ''HR'']),
      ((''bicubic'', ''val'', 2), os_path_join ''benchmark'' [''B100'', ''LR_bicubic'', ''X2'']),
      ((''bicubic'', ''val'', 3), os_path_join ''benchmark'' [''B100'', ''LR_bicubic'', ''X3'']),
      ((''bicubic'', ''val'', 4), os_path_join ''benchmark'' [''B100'', ''LR_bicubic'', ''X4''])]"

definition B100 :: dataset_class where
  "B100 = \<lparr>urls = B100_urls, track_dirs = B100_track_dirs\<rparr>"

definition Urban100_urls :: "(string \<times> string) list" where
  "Urban100_urls =
     [(''https://cv.snu.ac.kr/research/EDSR/benchmark.tar'',
       ''4ace41d33c2384b97e6b320cd0afd6ba'')]"

definition Urban100_track_dirs :: "(key \<times> string) list" where
  "Urban100_track_dirs =
     [((''hr'', ''val'', 1), os_path_join ''benchmark'' [''Urban100'', ''HR'']),
      ((''bicubic'', ''val'', 2), os_path_join ''benchmark'' [''Urban100'', ''LR_bicubic'', ''X2'']),
      ((''bicubic'', ''val'', 3), os_path_join ''benchmark'' [''Urban100'', ''LR_bicubic'', ''X3'']),
      ((''bicubic'', ''val'', 4), os_path_join ''benchmark'' [''Urban100'', ''LR_bicubic'', ''X4''])]"

definition Urban100 :: dataset_class where
  "Urban100 = \<lparr>urls = Urban100_urls, track_dirs = Urban100_track_dirs\<rparr>"

definition Div2K_init ::
  "runtime \<Rightarrow> string \<Rightarrow> scale_arg \<Rightarrow> track_arg \<Rightarrow> string
     \<Rightarrow> ('img list \<Rightarrow> error + 'img list) option \<Rightarrow> (string \<Rightarrow> error + 'img) \<Rightarrow> bool
     \<Rightarrow> world \<Rightarrow> (error + 'img folder_by_dir) \<times> world" where
  "Div2K_init rt root0 scale0 track0 sp transform0 loader0 dl w =
     FolderByDir_init rt Div2K (os_path_join root0 [''DIV2K'']) scale0 track0 sp
       transform0 loader0 dl w"

definition Set5_init ::
  "runtime \<Rightarrow> string \<Rightarrow> scale_arg
     \<Rightarrow> ('img list \<Rightarrow> error + 'img list) option \<Rightarrow> (string \<Rightarrow> error + 'img) \<Rightarrow> bool
     \<Rightarrow> world \<Rightarrow> (error + 'img folder_by_dir) \<times> world" where
  "Set5_init rt root0 scale0 transform0 loader0 dl w =
     FolderByDir_init rt Set5 (os_path_join root0 [''SRBenchmarks'']) scale0
       (TrackStr ''bicubic'') ''val'' transform0 loader0 dl w"

definition Set14_init ::
  "runtime \<Rightarrow> string \<Rightarrow> scale_arg
     \<Rightarrow> ('img list \<Rightarrow> error + 'img list) option \<Rightarrow> (string \<Rightarrow> error + 'img) \<Rightarrow> bool
     \<Rightarrow> world \<Rightarrow> (error + 'img folder_by_dir) \<times> world" where
  "Set14_init rt root0 scale0 transform0 loader0 dl w =
     FolderByDir_init rt Set14 (os_path_join root0 [''SRBenchmarks'']) scale0
       (TrackStr ''bicubic'') ''val'' transform0 loader0 dl w"

definition B100_init ::
  "runtime \<Rightarrow> string \<Rightarrow> scale_arg
     \<Rightarrow> ('img list \<Rightarrow> error + 'img list) option \<Rightarrow> (string \<Rightarrow> error + 'img) \<Rightarrow> bool
     \<Rightarrow> world \<Rightarrow> (error + 'img folder_by_dir) \<times> world" where
  "B100_init rt root0 scale0 transform0 loader0 dl w =
     FolderByDir_init rt B100 (os_path_join root0 [''SRBenchmarks'']) scale0
       (TrackStr ''bicubic'') ''val'' transform0 loader0 dl w"

definition Urban100_init ::
  "runtime \<Rightarrow> string \<Rightarrow> scale_arg
     \<Rightarrow> ('img list \<Rightarrow> error + 'img list) option \<Rightarrow> (string \<Rightarrow> error + 'img) \<Rightarrow> bool
     \<Rightarrow> world \<Rightarrow> (error + 'img folder_by_dir) \<times> world" where
  "Urban100_init rt root0 scale0 transform0 loader0 dl w =
     FolderByDir_init rt Urban100 (os_path_join root0 [''SRBenchmarks'']) scale0
       (TrackStr ''bicubic'') ''val'' transform0 loader0 dl w"

section \<open>Notions used in the statements\<close>

text \<open>
  The directory of a pair, as a value: the root joined with the entry of the table, or
  \<open>None\<close> when the table has no entry. Lemma \<open>get_dir_lookup\<close> below relates it to
  \<open>get_dir\<close>.
\<close>

definition lookup_dir :: "dataset_class \<Rightarrow> string \<Rightarrow> string \<Rightarrow> string \<Rightarrow> int \<Rightarrow> string option" where
  "lookup_dir cls r track sp scale =
     map_option (\<lambda>d. os_path_join r [d]) (map_of (track_dirs cls) (track, sp, scale))"

text \<open>What \<open>list_samples\<close> returns for a directory \<open>p\<close> whose listing is \<open>names\<close>.\<close>

definition sorted_paths :: "string \<Rightarrow> string list \<Rightarrow> string list" where
  "sorted_paths p names = map (\<lambda>s. os_path_join p [s]) (sort names)"

text \<open>The directories that a sequence of events has listed, in order.\<close>

fun listed :: "event list \<Rightarrow> string list" where
  "listed [] = []"
| "listed (ListDir p # evs) = p # listed evs"
| "listed (Download u d m # evs) = listed evs"

text \<open>A (track, scale) pair that has an entry in the table for the split.\<close>

definition supported :: "dataset_class \<Rightarrow> string \<Rightarrow> string \<times> int \<Rightarrow> bool" where
  "supported cls sp = (\<lambda>(t, s). map_of (track_dirs cls) (t, sp, s) \<noteq> None)"

subsection \<open>An example tree\<close>

text \<open>
  A runtime with no home-directory expansion, the \<^verbatim>\<open>repr\<close> of plain names (single
  quotes around the name), sets iterated in sorted order and downloads that change
  nothing; a tree that holds the Set5 benchmark with three high-resolution files, three
  files at scale 2 and only two at scale 3; the dataset and the world that constructing
  Set5 at scale 2 produces; a transform that keeps the first image only and one that
  returns the list twice over. The loader of the examples returns the path itself as
  the image.
\<close>

definition example_runtime :: runtime where
  "example_runtime =
     \<lparr>expanduser = (\<lambda>p. p), repr_str = (\<lambda>s. [CHR 0x27] @ s @ [CHR 0x27]),
      list_of_set = sorted_list_of_set, fetch = (\<lambda>url dir md5 fs. Inr fs)\<rparr>"

definition example_tree :: "string \<Rightarrow> string list option" where
  "example_tree =
     [''/data/SRBenchmarks/benchmark/Set5/HR'' \<mapsto> [''b.png'', ''c.png'', ''a.png''],
      ''/data/SRBenchmarks/benchmark/Set5/LR_bicubic/X2'' \<mapsto> [''cx2.png'', ''ax2.png'', ''bx2.png''],
      ''/data/SRBenchmarks/benchmark/Set5/LR_bicubic/X3'' \<mapsto> [''ax3.png'', ''bx3.png'']]"

definition example_world :: world where
  "example_world = \<lparr>files = example_tree, trace = []\<rparr>"

definition example_dataset :: "string folder_by_dir" where
  "example_dataset =
     (new_self example_runtime ''/data/SRBenchmarks'' [2] [''bicubic''] ''val'' None Inr)
       \<lparr>samples :=
          [[''/data/SRBenchmarks/benchmark/Set5/HR/a.png'',
            ''/data/SRBenchmarks/benchmark/Set5/LR_bicubic/X2/ax2.png''],
           [''/data/SRBenchmarks/benchmark/Set5/HR/b.png'',
            ''/data/SRBenchmarks/benchmark/Set5/LR_bicubic/X2/bx2.png''],
           [''/data/SRBenchmarks/benchmark/Set5/HR/c.png'',
            ''/data/SRBenchmarks/benchmark/Set5/LR_bicubic/X2/cx2.png'']]\<rparr>"

definition example_listed :: world where
  "example_listed =
     \<lparr>files = example_tree,
      trace = [ListDir ''/data/SRBenchmarks/benchmark/Set5/HR'',
               ListDir ''/data/SRBenchmarks/benchmark/Set5/LR_bicubic/X2'']\<rparr>"

definition first_only :: "string list \<Rightarrow> error + string list" where
  "first_only imgs = Inr (take 1 imgs)"

definition doubled :: "string list \<Rightarrow> error + string list" where
  "doubled imgs = Inr (imgs @ imgs)"

text \<open>
  A second tree holds the test split of DIV2K, which has no high-resolution directory:
  two files for track \<^verbatim>\<open>bicubic\<close> at scale 2, two for track \<^verbatim>\<open>unknown\<close> at scale 2
  and one for track \<^verbatim>\<open>unknown\<close> at scale 3; with it, the dataset and the world that
  constructing DIV2K for the two tracks at scale 2 produces.
\<close>

definition example_test_tree :: "string \<Rightarrow> string list option" where
  "example_test_tree =
     [''/data/DIV2K/DIV2K_test_LR_bicubic/X2'' \<mapsto> [''0902x2.png'', ''0901x2.png''],
      ''/data/DIV2K/DIV2K_test_LR_unknown/X2'' \<mapsto> [''0901x2.png'', ''0902x2.png''],
      ''/data/DIV2K/DIV2K_test_LR_unknown/X3'' \<mapsto> [''0901x3.png'']]"

definition example_test_world :: world where
  "example_test_world = \<lparr>files = example_test_tree, trace = []\<rparr>"

definition example_test_dataset :: "string folder_by_dir" where
  "example_test_dataset =
     (new_self example_runtime ''/data/DIV2K'' [2, 2] [''bicubic'', ''unknown''] ''test'' None Inr)
       \<lparr>samples :=
          [[''/data/DIV2K/DIV2K_test_LR_bicubic/X2/0901x2.png'',
            ''/data/DIV2K/DIV2K_test_LR_unknown/X2/0901x2.png''],
           [''/data/DIV2K/DIV2K_test_LR_bicubic/X2/0902x2.png'',
            ''/data/DIV2K/DIV2K_test_LR_unknown/X2/0902x2.png'']]\<rparr>"

definition example_test_listed :: world where
  "example_test_listed =
     \<lparr>files = example_test_tree,
      trace = [ListDir ''/data/DIV2K/DIV2K_test_LR_bicubic/X2'',
               ListDir ''/data/DIV2K/DIV2K_test_LR_unknown/X2'']\<rparr>"

section \<open>Properties\<close>

lemma get_dir_world: "snd (get_dir rt cls self track sp scale w) = w"
  by (simp add: get_dir_def split: option.splits)


lemma get_dir_supported:
  "lookup_dir cls (root self) track sp scale = Some p \<Longrightarrow>
     get_dir rt cls self track sp scale w = (Inr p, w)"
  by (auto simp: get_dir_def lookup_dir_def split: option.splits)

lemma get_dir_unsupported:
  "lookup_dir cls (root self) track sp scale = None \<Longrightarrow>
     \<exists>m. get_dir rt cls self track sp scale w = (Inl (ValueError m), w)"
  by (auto simp: get_dir_def lookup_dir_def split: option.splits)

lemma list_samples_supported:
  "lookup_dir cls (root self) track sp scale = Some p \<Longrightarrow>
     list_samples rt cls self track sp scale w =
       (case files w p of None \<Rightarrow> Inl (OSError p) | Some names \<Rightarrow> Inr (sorted_paths p names),
        w\<lparr>trace := trace w @ [ListDir p]\<rparr>)"
  by (simp add: list_samples_def get_dir_supported listdir_def sorted_paths_def split: option.splits)

lemma list_samples_unsupported:
  "lookup_dir cls (root self) track sp scale = None \<Longrightarrow>
     \<exists>m. list_samples rt cls self track sp scale w = (Inl (ValueError m), w)"
  using get_dir_unsupported [of cls self track sp scale rt w]
  by (auto simp: list_samples_def)

text \<open>What a successful first loop has read.\<close>

lemma list_tracks_Inr:
  "list_tracks rt cls self ps w = (Inr ls, w') \<Longrightarrow>
     list_all2 (\<lambda>(t, s) l. \<exists>p names. lookup_dir cls (root self) t (split self) s = Some p
                    \<and> files w p = Some names \<and> l = sorted_paths p names) ps ls
     \<and> files w' = files w
     \<and> trace w' = trace w @ map ListDir (List.map_filter (\<lambda>(t, s). lookup_dir cls (root self) t (split self) s) ps)"
proof (induction ps arbitrary: ls w)
  case Nil
  then show ?case by (simp add: List.map_filter_simps)
next
  case (Cons a ps)
  obtain t s where a: "a = (t, s)" by (cases a)
  show ?case
  proof (cases "lookup_dir cls (root self) t (split self) s")
    case None
    then show ?thesis
      using Cons.prems list_samples_unsupported [OF None, of rt w] by (auto simp: a)
  next
    case (Some p)
    note ls = list_samples_supported [OF Some, of rt w]
    show ?thesis
    proof (cases "files w p")
      case None
      then show ?thesis using Cons.prems by (simp add: a ls)
    next
      case (Some names)
      let ?w1 = "w\<lparr>trace := trace w @ [ListDir p]\<rparr>"
      from Cons.prems obtain ls' where
        rest: "list_tracks rt cls self ps ?w1 = (Inr ls', w')" and ls': "ls = sorted_paths p names # ls'"
        by (auto simp: a ls Some split: prod.splits sum.splits)
      from Cons.IH [OF rest] show ?thesis
        using \<open>lookup_dir cls (root self) t (split self) s = Some p\<close> Some
        by (simp add: a ls' List.map_filter_simps)
    qed
  qed
qed

lemma supported_lookup:
  "supported cls sp (t, s) \<longleftrightarrow> lookup_dir cls r t sp s \<noteq> None"
  by (simp add: supported_def lookup_dir_def)

text \<open>Whatever the outcome, the first loop lists directories in the order of the pairs
  and stops at the first pair without a directory.\<close>

lemma list_tracks_trace:
  "list_tracks rt cls self ps w = (r, w') \<Longrightarrow>
     files w' = files w \<and>
     (\<exists>n. trace w' = trace w @ map ListDir
        (take n (List.map_filter (\<lambda>(t, s). lookup_dir cls (root self) t (split self) s)
                   (takeWhile (supported cls (split self)) ps))))"
proof (induction ps arbitrary: r w)
  case Nil
  then show ?case by (auto simp: List.map_filter_simps)
next
  case (Cons a ps)
  obtain t s where a: "a = (t, s)" by (cases a)
  show ?case
  proof (cases "lookup_dir cls (root self) t (split self) s")
    case None
    then have "\<not> supported cls (split self) a"
      by (simp add: a supported_lookup [of _ _ _ _ "root self"])
    moreover from None Cons.prems have "w' = w"
      using list_samples_unsupported [OF None, of rt w] by (auto simp: a)
    ultimately show ?thesis by (simp add: List.map_filter_simps)
  next
    case (Some p)
    then have sup: "supported cls (split self) a"
      by (simp add: a supported_lookup [of _ _ _ _ "root self"])
    note ls = list_samples_supported [OF Some, of rt w]
    let ?w1 = "w\<lparr>trace := trace w @ [ListDir p]\<rparr>"
    let ?dirs = "List.map_filter (\<lambda>(t, s). lookup_dir cls (root self) t (split self) s)
                   (takeWhile (supported cls (split self)) ps)"
    have dirs: "List.map_filter (\<lambda>(t, s). lookup_dir cls (root self) t (split self) s)
                   (takeWhile (supported cls (split self)) (a # ps)) = p # ?dirs"
      using sup Some by (simp add: a List.map_filter_simps)
    show ?thesis
    proof (cases "files w p")
      case None
      with Cons.prems have "w' = ?w1" by (simp add: a ls)
      then have "trace w' = trace w @ map ListDir (take 1 (p # ?dirs))" by simp
      then show ?thesis unfolding dirs using \<open>w' = ?w1\<close> by (intro conjI exI [of _ 1]) simp_all
    next
      case (Some names)
      from Cons.prems obtain r' where rest: "list_tracks rt cls self ps ?w1 = (r', w')"
        by (auto simp: a ls Some split: prod.splits sum.splits)
      from Cons.IH [OF rest] obtain n where
        f: "files w' = files w" and tr: "trace w' = trace ?w1 @ map ListDir (take n ?dirs)"
        by auto
      from tr have "trace w' = trace w @ map ListDir (take (Suc n) (p # ?dirs))" by simp
      then show ?thesis unfolding dirs using f by blast
    qed
  qed
qed

lemma list_tracks_unsupported:
  "\<exists>a\<in>set ps. \<not> supported cls (split self) a \<Longrightarrow>
     \<exists>e. fst (list_tracks rt cls self ps w) = Inl e"
proof (induction ps arbitrary: w)
  case Nil
  then show ?case by simp
next
  case (Cons a ps)
  obtain t s where a: "a = (t, s)" by (cases a)
  show ?case
  proof (cases "lookup_dir cls (root self) t (split self) s")
    case None
    then show ?thesis
      using list_samples_unsupported [OF None, of rt w] by (auto simp: a)
  next
    case (Some p)
    then have "supported cls (split self) a"
      by (simp add: a supported_lookup [of _ _ _ _ "root self"])
    with Cons.prems have later: "\<exists>a\<in>set ps. \<not> supported cls (split self) a" by auto
    note ls = list_samples_supported [OF Some, of rt w]
    show ?thesis
      using Cons.IH [OF later, of "w\<lparr>trace := trace w @ [ListDir p]\<rparr>"]
      by (auto simp: a ls split: option.splits prod.splits sum.splits)
  qed
qed


subsection \<open>The count check\<close>

lemma check_counts_None:
  "check_counts tr sc n0 i rest = None \<longleftrightarrow> (\<forall>s\<in>set rest. length s = n0)"
  by (induction rest arbitrary: i) auto

lemma new_self_simps [simp]:
  "root (new_self rt r sc tr sp tf ld) = expanduser rt r"
  "loader (new_self rt r sc tr sp tf ld) = ld"
  "transform (new_self rt r sc tr sp tf ld) = tf"
  "scales (new_self rt r sc tr sp tf ld) = sc"
  "samples (new_self rt r sc tr sp tf ld) = []"
  "split (new_self rt r sc tr sp tf ld) = sp"
  "tracks (new_self rt r sc tr sp tf ld) = tr"
  by (simp_all add: new_self_def Folder_init_def folder.defs folder_by_dir.defs)

lemma all_tracks_eq:
  "all_tracks cls self =
     (if supported cls (split self) (''hr'', 1) then [(''hr'', 1)] else [])
       @ zip (tracks self) (scales self)"
  by (simp add: all_tracks_def supported_def)

lemma init_samples_Inr:
  "init_samples rt cls self w = (Inr u, self', w') \<Longrightarrow>
     \<exists>s0 rest. list_tracks rt cls self (all_tracks cls self) w = (Inr (s0 # rest), w')
        \<and> (\<forall>s\<in>set rest. length s = length s0)
        \<and> self' = self\<lparr>samples := map (\<lambda>i. map (\<lambda>s. s ! i) (s0 # rest)) [0..<length s0]\<rparr>"
  by (auto simp: init_samples_def check_counts_None
           split: prod.splits sum.splits list.splits option.splits)

lemma init_samples_Inl:
  "init_samples rt cls self w = (Inl e, self', w') \<Longrightarrow>
     self' = self \<or> (e = IndexError \<and> self' = self\<lparr>samples := []\<rparr>)"
  by (auto simp: init_samples_def split: prod.splits sum.splits list.splits option.splits)

lemma FolderByDir_init_Inr:
  assumes "FolderByDir_init rt cls root0 scale0 track0 sp tf ld dl w = (Inr self, w')"
  shows "length (track_list track0 (scale_list scale0)) = length (scale_list scale0) \<and>
    (\<exists>w1. (if dl then download rt cls (new_self rt root0 (scale_list scale0)
                (track_list track0 (scale_list scale0)) sp tf ld) w else (Inr (), w)) = (Inr (), w1) \<and>
          init_samples rt cls (new_self rt root0 (scale_list scale0)
                (track_list track0 (scale_list scale0)) sp tf ld) w1 = (Inr (), self, w'))"
  using assms
  by (auto simp: FolderByDir_init_def Let_def split: if_splits prod.splits sum.splits)

text \<open>Pairing index-wise: the columns of the samples are the listings.\<close>

lemma paired_length:
  "length (map (\<lambda>i. map (\<lambda>s. s ! i) ls) [0..<n]) = n"
  by simp

lemma paired_row_length:
  "\<forall>row\<in>set (map (\<lambda>i. map (\<lambda>s. s ! i) ls) [0..<n]). length row = length ls"
  by simp


text \<open>What a successful construction has built.\<close>

lemma construction_success:
  assumes "FolderByDir_init rt cls root0 scale0 track0 sp tf ld dl w = (Inr self, w')"
  shows "\<exists>s0 rest.
     list_all2 (\<lambda>(t, s) l. \<exists>p names. lookup_dir cls (expanduser rt root0) t sp s = Some p
                    \<and> files w' p = Some names \<and> l = sorted_paths p names)
       ((if supported cls sp (''hr'', 1) then [(''hr'', 1)] else [])
          @ zip (track_list track0 (scale_list scale0)) (scale_list scale0))
       (s0 # rest)
     \<and> (\<forall>l\<in>set rest. length l = length s0)
     \<and> samples self = map (\<lambda>i. map (\<lambda>s. s ! i) (s0 # rest)) [0..<length s0]
     \<and> root self = expanduser rt root0 \<and> split self = sp
     \<and> tracks self = track_list track0 (scale_list scale0)
     \<and> scales self = scale_list scale0
     \<and> transform self = tf \<and> loader self = ld
     \<and> length (track_list track0 (scale_list scale0)) = length (scale_list scale0)"
proof -
  let ?self0 = "new_self rt root0 (scale_list scale0) (track_list track0 (scale_list scale0)) sp tf ld"
  from FolderByDir_init_Inr [OF assms] obtain w1 where
    len: "length (track_list track0 (scale_list scale0)) = length (scale_list scale0)" and
    ini: "init_samples rt cls ?self0 w1 = (Inr (), self, w')"
    by blast
  from init_samples_Inr [OF ini] obtain s0 rest where
    lt: "list_tracks rt cls ?self0 (all_tracks cls ?self0) w1 = (Inr (s0 # rest), w')" and
    eq: "\<forall>s\<in>set rest. length s = length s0" and
    self: "self = ?self0\<lparr>samples := map (\<lambda>i. map (\<lambda>s. s ! i) (s0 # rest)) [0..<length s0]\<rparr>"
    by blast
  from list_tracks_Inr [OF lt] have
    l2: "list_all2 (\<lambda>(t, s) l. \<exists>p names. lookup_dir cls (expanduser rt root0) t sp s = Some p
                    \<and> files w1 p = Some names \<and> l = sorted_paths p names)
           (all_tracks cls ?self0) (s0 # rest)" and f: "files w' = files w1"
    by simp_all
  show ?thesis
    using l2 eq len unfolding f [symmetric]
    by (intro exI [of _ s0] exI [of _ rest]) (simp add: self all_tracks_eq)
qed

lemma supported_iff: "supported cls sp (t, s) \<longleftrightarrow> map_of (track_dirs cls) (t, sp, s) \<noteq> None"
  by (simp add: supported_def)

lemma get_dir_self:
  "root self' = root self \<Longrightarrow>
     get_dir rt cls self' track sp scale w = get_dir rt cls self track sp scale w"
  by (simp add: get_dir_def split: option.splits)

lemmas eval_defs =
  FolderByDir_init_def init_samples_def list_samples_def get_dir_def listdir_def
  all_tracks_def scale_list_def track_list_def os_path_join_def join_step_def
  Set5_def Set5_track_dirs_def example_runtime_def example_world_def example_tree_def

lemma example_construction:
  "FolderByDir_init example_runtime Set5 ''/data/SRBenchmarks'' (ScaleInt 2)
     (TrackStr ''bicubic'') ''val'' None Inr False example_world
   = (Inr example_dataset, example_listed)"
  by (simp add: eval_defs example_dataset_def example_listed_def)

lemma sort_first_Min:
  fixes xs :: "'a::linorder list"
  assumes "xs \<noteq> []"
  shows "sort xs ! 0 = Min (set xs)"
proof -
  from assms have "sort xs \<noteq> []" by (metis length_sort length_0_conv)
  then obtain y ys where ys: "sort xs = y # ys" by (cases "sort xs") auto
  have "sorted (sort xs)" by simp
  with ys have le: "\<forall>z\<in>set ys. y \<le> z" by simp
  have s: "set xs = set (y # ys)" using ys by (metis set_sort)
  have "Min (set xs) = y"
  proof (rule Min_eqI)
    show "finite (set xs)" by simp
    show "y \<le> z" if "z \<in> set xs" for z using that le s by auto
    show "y \<in> set xs" using s by simp
  qed
  with ys show ?thesis by simp
qed

lemma init_samples_succeeds:
  assumes "list_tracks rt cls self (all_tracks cls self) w = (Inr (s0 # rest), w')"
    and "\<forall>s\<in>set rest. length s = length s0"
  shows "init_samples rt cls self w =
           (Inr (), self\<lparr>samples := map (\<lambda>i. map (\<lambda>s. s ! i) (s0 # rest)) [0..<length s0]\<rparr>, w')"
proof -
  from assms(2) have "check_counts (tracks self) (scales self) (length s0) 0 rest = None"
    by (simp add: check_counts_None)
  with assms(1) show ?thesis by (simp add: init_samples_def)
qed




lemma listed_append: "listed (xs @ ys) = listed xs @ listed ys"
  by (induction xs rule: listed.induct) simp_all

lemma listed_ListDir: "listed (map ListDir ps) = ps"
  by (induction ps) simp_all

lemma download_all_events:
  "download_all rt d us w = (r, w') \<Longrightarrow> \<exists>evs. trace w' = trace w @ evs \<and> listed evs = []"
proof (induction us arbitrary: w)
  case Nil
  then show ?case by simp
next
  case (Cons a us)
  obtain url md5 where a: "a = (url, md5)" by (cases a)
  let ?w1 = "w\<lparr>trace := trace w @ [Download url d md5]\<rparr>"
  show ?case
  proof (cases "fetch rt url d md5 (files w)")
    case (Inl e)
    with Cons.prems have "w' = ?w1"
      by (simp add: a download_and_extract_archive_def Let_def)
    then have "trace w' = trace w @ [Download url d md5]" by simp
    then show ?thesis by (intro exI [of _ "[Download url d md5]"]) simp
  next
    case (Inr fs)
    with Cons.prems have "download_all rt d us (?w1\<lparr>files := fs\<rparr>) = (r, w')"
      by (simp add: a download_and_extract_archive_def Let_def)
    from Cons.IH [OF this] obtain evs where
      "trace w' = trace w @ Download url d md5 # evs" "listed evs = []"
      by auto
    then show ?thesis by (intro exI [of _ "Download url d md5 # evs"]) simp
  qed
qed

lemma sublist_prepend: "sublist xs ys \<Longrightarrow> sublist xs (zs @ ys)"
proof -
  assume "sublist xs ys"
  then obtain ps ss where "ys = ps @ xs @ ss" by (auto simp: sublist_def)
  then have "zs @ ys = (zs @ ps) @ xs @ ss" by simp
  then show ?thesis unfolding sublist_def by blast
qed

lemma sublist_extend: "sublist xs ys \<Longrightarrow> sublist xs (ys @ zs)"
proof -
  assume "sublist xs ys"
  then obtain ps ss where "ys = ps @ xs @ ss" by (auto simp: sublist_def)
  then have "ys @ zs = ps @ xs @ (ss @ zs)" by simp
  then show ?thesis unfolding sublist_def by blast
qed

lemma comma_sep_sublist: "x \<in> set xs \<Longrightarrow> sublist x (comma_sep xs)"
proof (induction xs rule: comma_sep.induct)
  case 1
  then show ?case by simp
next
  case (2 y)
  then show ?case by simp
next
  case (3 y z zs)
  show ?case
  proof (cases "x = y")
    case True
    then show ?thesis by simp
  next
    case False
    with "3.prems" have "x \<in> set (z # zs)" by simp
    from "3.IH" [OF this] have "sublist x ('', '' @ comma_sep (z # zs))"
      by (rule sublist_prepend)
    then have "sublist x (y @ '', '' @ comma_sep (z # zs))"
      by (rule sublist_prepend)
    then show ?thesis by simp
  qed
qed

lemma str_list_sublist: "x \<in> set xs \<Longrightarrow> sublist (repr_str rt x) (str_list rt xs)"
proof -
  assume "x \<in> set xs"
  then have "repr_str rt x \<in> set (map (repr_str rt) xs)" by simp
  then have "sublist (repr_str rt x) (comma_sep (map (repr_str rt) xs))"
    by (rule comma_sep_sublist)
  then have "sublist (repr_str rt x) (comma_sep (map (repr_str rt) xs) @ '']'')"
    by (rule sublist_extend)
  then have "sublist (repr_str rt x) (''['' @ comma_sep (map (repr_str rt) xs) @ '']'')"
    by (rule sublist_prepend)
  then show ?thesis by (simp add: str_list_def)
qed


text \<open>
  No key occurs twice in a table, so the lookup through \<open>map_of\<close> is the lookup
  of the dictionary literal.
\<close>

lemma track_dirs_distinct:
  "distinct (map fst Div2K_track_dirs)"
  "distinct (map fst Set5_track_dirs)"
  "distinct (map fst Set14_track_dirs)"
  "distinct (map fst B100_track_dirs)"
  "distinct (map fst Urban100_track_dirs)"
  by (simp_all add: Div2K_track_dirs_def Set5_track_dirs_def Set14_track_dirs_def
        B100_track_dirs_def Urban100_track_dirs_def)

text \<open>
  The order in which \<^verbatim>\<open>os.listdir\<close> happens to answer does not matter: two listings
  with the same names give the same paths.
\<close>

lemma sorted_paths_listing_order:
  "mset names = mset names' \<Longrightarrow> sorted_paths p names = sorted_paths p names'"
proof -
  assume "mset names = mset names'"
  then have "mset (sort names') = mset names" by simp
  then have "sort names = sort names'"
    by (rule properties_for_sort) simp
  then show ?thesis by (simp add: sorted_paths_def)
qed



lemmas eval_test_defs =
  FolderByDir_init_def init_samples_def list_samples_def get_dir_def listdir_def
  all_tracks_def scale_list_def track_list_def os_path_join_def join_step_def
  Div2K_def Div2K_track_dirs_def example_runtime_def example_test_world_def example_test_tree_def

lemma example_test_construction:
  "FolderByDir_init example_runtime Div2K ''/data/DIV2K'' (ScaleList [2, 2])
     (TrackList [''bicubic'', ''unknown'']) ''test'' None Inr False example_test_world
   = (Inr example_test_dataset, example_test_listed)"
  by (simp add: eval_test_defs example_test_dataset_def example_test_listed_def)


lemma load_all_success:
  "\<forall>p\<in>set ps. \<exists>img. ld p = Inr img \<Longrightarrow>
     \<exists>imgs. load_all ld ps = Inr imgs \<and> map ld ps = map Inr imgs"
  by (induction ps) (auto split: sum.splits)

lemma load_all_Inr_all:
  "load_all ld ps = Inr imgs \<Longrightarrow> p \<in> set ps \<Longrightarrow> \<exists>img. ld p = Inr img"
  by (induction ps arbitrary: imgs) (auto split: sum.splits)

lemma load_all_failure:
  assumes "\<exists>p\<in>set ps. \<exists>e. ld p = Inl e"
  shows "\<exists>e. load_all ld ps = Inl e"
proof (cases "load_all ld ps")
  case (Inl e)
  then show ?thesis by blast
next
  case (Inr imgs)
  from assms obtain p e where "p \<in> set ps" "ld p = Inl e" by blast
  with load_all_Inr_all [OF Inr, of p] show ?thesis by simp
qed

lemma getitem_valid_index:
  assumes "- int (length (samples self)) \<le> index" and "index < int (length (samples self))"
  shows "nat (if index < 0 then int (length (samples self)) + index else index)
           < length (samples self)"
  using assms by auto

lemma getitem_valid:
  assumes "- int (length (samples self)) \<le> index" and "index < int (length (samples self))"
  shows "Folder_getitem self index =
           (case load_all (loader self)
                   (samples self ! nat (if index < 0 then int (length (samples self)) + index
                                        else index)) of
              Inl e \<Rightarrow> Inl e
            | Inr images \<Rightarrow> (case transform self of None \<Rightarrow> Inr images | Some f \<Rightarrow> f images))"
proof -
  let ?n = "int (length (samples self))"
  let ?j = "if index < 0 then ?n + index else index"
  from assms have j: "0 \<le> ?j \<and> ?j < ?n" by auto
  show ?thesis
    unfolding Folder_getitem_def Let_def using j by simp
qed

lemma example_transform_construction:
  "FolderByDir_init example_runtime Set5 ''/data/SRBenchmarks'' (ScaleInt 2)
     (TrackStr ''bicubic'') ''val'' (Some doubled) Inr False example_world
   = (Inr (example_dataset\<lparr>transform := Some doubled\<rparr>), example_listed)"
  by (simp add: eval_defs example_dataset_def example_listed_def
        new_self_def Folder_init_def folder.defs folder_by_dir.defs)



section \<open>The claims\<close>






text \<open>
  Claim C3, amended. A request that contains a pair without an entry in
  \<^verbatim>\<open>track_dirs\<close> for the split always raises. The loop resolves and lists one pair
  after the other, so the directories listed before the error are, in order, an initial
  segment of: the high-resolution directory (when configured), then the directories of
  the requested pairs that come before the first unsupported one. Nothing is listed for
  the unsupported pair or for any pair after it.
\<close>

theorem unsupported_pair_raises:
  assumes mem: "(t, s) \<in> set (zip (track_list track0 (scale_list scale0)) (scale_list scale0))"
    and unsup: "map_of (track_dirs cls) (t, sp, s) = None"
    and order: "order = (if map_of (track_dirs cls) (''hr'', sp, 1) \<noteq> None then [(''hr'', 1)] else [])
                   @ zip (track_list track0 (scale_list scale0)) (scale_list scale0)"
  shows "\<exists>e w' evs. FolderByDir_init rt cls root0 scale0 track0 sp tf ld dl w = (Inl e, w')
       \<and> trace w' = trace w @ evs
       \<and> prefix (listed evs)
            (List.map_filter (\<lambda>(t', s'). lookup_dir cls (expanduser rt root0) t' sp s')
               (takeWhile (supported cls sp) order))"
proof (cases "length (track_list track0 (scale_list scale0)) = length (scale_list scale0)")
  case False
  then have "FolderByDir_init rt cls root0 scale0 track0 sp tf ld dl w
          = (Inl (ValueError ''The number of scales and of tracks must be the same''), w)"
    by (simp add: FolderByDir_init_def Let_def)
  then show ?thesis by (intro exI [of _ "[]"] exI) simp
next
  case True
  let ?fresh = "new_self rt root0 (scale_list scale0) (track_list track0 (scale_list scale0)) sp tf ld"
  let ?dirs = "List.map_filter (\<lambda>(t', s'). lookup_dir cls (expanduser rt root0) t' sp s')
               (takeWhile (supported cls sp) order)"
  have at: "all_tracks cls ?fresh = order"
    by (simp add: all_tracks_eq order supported_iff)
  obtain r1 w1 where st: "(if dl then download rt cls ?fresh w else (Inr (), w)) = (r1, w1)"
    by (cases "if dl then download rt cls ?fresh w else (Inr (), w)") auto
  have "\<exists>evs. trace w1 = trace w @ evs \<and> listed evs = []"
  proof (cases dl)
    case True
    with st have "download_all rt (root ?fresh) (urls cls) w = (r1, w1)"
      by (simp add: download_def)
    then show ?thesis by (rule download_all_events)
  next
    case False
    with st show ?thesis by simp
  qed
  then obtain evs1 where e1: "trace w1 = trace w @ evs1" "listed evs1 = []" by blast
  show ?thesis
  proof (cases r1)
    case (Inl e)
    with st True have "FolderByDir_init rt cls root0 scale0 track0 sp tf ld dl w = (Inl e, w1)"
      by (simp add: FolderByDir_init_def Let_def)
    with e1 show ?thesis by (intro exI [of _ e] exI [of _ w1] exI [of _ evs1]) simp
  next
    case (Inr u)
    obtain r w' where lt: "list_tracks rt cls ?fresh order w1 = (r, w')"
      by (cases "list_tracks rt cls ?fresh order w1") auto
    from mem unsup have "\<exists>a\<in>set order. \<not> supported cls (split ?fresh) a"
      by (auto simp: order supported_iff intro!: bexI [of _ "(t, s)"])
    from list_tracks_unsupported [OF this, of rt w1] lt obtain e where r: "r = Inl e"
      by auto
    from list_tracks_trace [OF lt] obtain n where
      tr: "trace w' = trace w1 @ map ListDir (take n ?dirs)"
      by auto
    from lt r have "init_samples rt cls ?fresh w1 = (Inl e, ?fresh, w')"
      by (simp add: init_samples_def at)
    with st True Inr have con: "FolderByDir_init rt cls root0 scale0 track0 sp tf ld dl w = (Inl e, w')"
      by (simp add: FolderByDir_init_def Let_def)
    have "trace w' = trace w @ (evs1 @ map ListDir (take n ?dirs))"
      using tr e1 by simp
    moreover have "prefix (listed (evs1 @ map ListDir (take n ?dirs))) ?dirs"
      by (simp add: listed_append listed_ListDir e1 take_is_prefix)
    ultimately show ?thesis using con by blast
  qed
qed

text \<open>
  Claim C3 as stated fails: for track \<^verbatim>\<open>bicubic\<close> at scales 2 and 5 the constructor
  lists the high-resolution directory and the directory of the requested pair
  (\<^verbatim>\<open>bicubic\<close>, 2) before it raises for scale 5.
\<close>

theorem unsupported_pair_raises_counterexample:
  "FolderByDir_init example_runtime Set5 ''/data/SRBenchmarks'' (ScaleList [2, 5])
     (TrackStr ''bicubic'') ''val'' None (Inr :: string \<Rightarrow> error + string) False example_world
   = (Inl (ValueError ''Div2K track bicubic does not include scale X5''), example_listed)
   \<and> map_of (track_dirs Set5) (''bicubic'', ''val'', 5) = None
   \<and> fst (get_dir example_runtime Set5 example_dataset ''bicubic'' ''val'' 2 example_world)
       = Inr ''/data/SRBenchmarks/benchmark/Set5/LR_bicubic/X2''
   \<and> trace example_world = []
   \<and> trace example_listed = [ListDir ''/data/SRBenchmarks/benchmark/Set5/HR'',
                              ListDir ''/data/SRBenchmarks/benchmark/Set5/LR_bicubic/X2'']"
  by (simp add: eval_defs example_listed_def example_dataset_def str_int_def str_nat.simps
        digit_char_def get_tracks_def get_splits_def)

theorem unsupported_pair_raises_witness:
  "(''bicubic'', 5) \<in> set (zip (track_list (TrackStr ''bicubic'') (scale_list (ScaleList [2, 5])))
                              (scale_list (ScaleList [2, 5])))
   \<and> map_of (track_dirs Set5) (''bicubic'', ''val'', 5) = None
   \<and> (\<exists>e w' evs. FolderByDir_init example_runtime Set5 ''/data/SRBenchmarks'' (ScaleList [2, 5])
          (TrackStr ''bicubic'') ''val'' None (Inr :: string \<Rightarrow> error + string) False example_world
            = (Inl e, w')
        \<and> trace w' = trace example_world @ evs
        \<and> prefix (listed evs) [''/data/SRBenchmarks/benchmark/Set5/HR'',
                                ''/data/SRBenchmarks/benchmark/Set5/LR_bicubic/X2''])"
proof -
  have mem: "(''bicubic'', 5) \<in> set (zip (track_list (TrackStr ''bicubic'') (scale_list (ScaleList [2, 5])))
                              (scale_list (ScaleList [2, 5])))"
    by (simp add: track_list_def scale_list_def)
  have unsup: "map_of (track_dirs Set5) (''bicubic'', ''val'', 5) = None"
    by (simp add: Set5_def Set5_track_dirs_def)
  have order: "[(''hr'', 1), (''bicubic'', 2), (''bicubic'', 5)]
     = (if map_of (track_dirs Set5) (''hr'', ''val'', 1) \<noteq> None then [(''hr'', 1)] else [])
         @ zip (track_list (TrackStr ''bicubic'') (scale_list (ScaleList [2, 5])))
               (scale_list (ScaleList [2, 5]))"
    by (simp add: Set5_def Set5_track_dirs_def scale_list_def track_list_def)
  have dirs: "List.map_filter (\<lambda>(t', s'). lookup_dir Set5 (expanduser example_runtime ''/data/SRBenchmarks'') t' ''val'' s')
               (takeWhile (supported Set5 ''val'') [(''hr'', 1), (''bicubic'', 2), (''bicubic'', 5)])
             = [''/data/SRBenchmarks/benchmark/Set5/HR'',
                ''/data/SRBenchmarks/benchmark/Set5/LR_bicubic/X2'']"
    by (simp add: supported_def lookup_dir_def List.map_filter_simps eval_defs)
  from unsupported_pair_raises [OF mem unsup order, of example_runtime "''/data/SRBenchmarks''"
         None "Inr :: string \<Rightarrow> error + string" False example_world]
  show ?thesis using mem unsup unfolding dirs by blast
qed



text \<open>
  Claim C5, amended. A key that is not in \<^verbatim>\<open>track_dirs\<close> makes \<^verbatim>\<open>get_dir\<close> raise
  \<^verbatim>\<open>ValueError\<close> at once, the world unchanged. For an unknown track the message shows
  the list built from \<^verbatim>\<open>get_tracks()\<close>, so every track in that list appears in it (as
  its \<^verbatim>\<open>repr\<close>). For a known track with an unknown split the message names the rejected
  split only, and for a known track and split it names the track and the scale only.
\<close>

theorem lookup_error_messages:
  assumes "map_of (track_dirs cls) (track, sp, scale) = None"
    and "track_msg = ''Track '' @ track @ '' does not exist. Use one of ''
                       @ str_list rt (list_of_set rt (get_tracks cls))"
  shows "(track \<notin> get_tracks cls \<longrightarrow>
            get_dir rt cls self track sp scale w = (Inl (ValueError track_msg), w)
          \<and> (\<forall>t\<in>set (list_of_set rt (get_tracks cls)). sublist (repr_str rt t) track_msg))
       \<and> (track \<in> get_tracks cls \<and> sp \<notin> get_splits cls \<longrightarrow>
            get_dir rt cls self track sp scale w
              = (Inl (ValueError (''Split '' @ sp @ '' is not valid'')), w))
       \<and> (track \<in> get_tracks cls \<and> sp \<in> get_splits cls \<longrightarrow>
            get_dir rt cls self track sp scale w
              = (Inl (ValueError (''Div2K track '' @ track @ '' does not include scale X''
                                  @ str_int scale)), w))"
proof -
  have "sublist (repr_str rt t) track_msg" if "t \<in> set (list_of_set rt (get_tracks cls))" for t
  proof -
    from str_list_sublist [OF that]
    have "sublist (repr_str rt t) (str_list rt (list_of_set rt (get_tracks cls)))" .
    then have "sublist (repr_str rt t)
        ((''Track '' @ track @ '' does not exist. Use one of '')
           @ str_list rt (list_of_set rt (get_tracks cls)))"
      by (rule sublist_prepend)
    then show ?thesis by (simp add: assms(2))
  qed
  then show ?thesis
    using assms by (simp add: get_dir_def)
qed

text \<open>
  Claim C5 as stated fails: the message for an unknown split mentions neither
  \<^verbatim>\<open>train\<close> nor \<^verbatim>\<open>test\<close>, and the message for an unsupported scale is the fixed
  sentence with the track and the scale.
\<close>

theorem lookup_error_messages_counterexample:
  "map_of (track_dirs Div2K) (''bicubic'', ''foo'', 2) = None
   \<and> get_splits Div2K = {''train'', ''val'', ''test''}
   \<and> get_dir example_runtime Div2K example_dataset ''bicubic'' ''foo'' 2 example_world
       = (Inl (ValueError ''Split foo is not valid''), example_world)
   \<and> \<not> sublist ''train'' ''Split foo is not valid''
   \<and> \<not> sublist ''test'' ''Split foo is not valid''
   \<and> map_of (track_dirs Div2K) (''bicubic'', ''train'', 5) = None
   \<and> get_dir example_runtime Div2K example_dataset ''bicubic'' ''train'' 5 example_world
       = (Inl (ValueError ''Div2K track bicubic does not include scale X5''), example_world)"
proof -
  have a: "map_of (track_dirs Div2K) (''bicubic'', ''foo'', 2) = None"
    by (simp add: Div2K_def Div2K_track_dirs_def)
  have b: "get_splits Div2K = {''train'', ''val'', ''test''}"
    by (auto simp: get_splits_def Div2K_def Div2K_track_dirs_def)
  have t: "''bicubic'' \<in> get_tracks Div2K"
    by (simp add: get_tracks_def Div2K_def Div2K_track_dirs_def)
  have c: "get_dir example_runtime Div2K example_dataset ''bicubic'' ''foo'' 2 example_world
       = (Inl (ValueError ''Split foo is not valid''), example_world)"
    using a t by (simp add: get_dir_def b)
  have d: "\<not> sublist ''train'' ''Split foo is not valid''"
          "\<not> sublist ''test'' ''Split foo is not valid''"
    by (simp_all add: sublist_Cons_right)
  have e: "map_of (track_dirs Div2K) (''bicubic'', ''train'', 5) = None"
    by (simp add: Div2K_def Div2K_track_dirs_def)
  have f: "get_dir example_runtime Div2K example_dataset ''bicubic'' ''train'' 5 example_world
       = (Inl (ValueError ''Div2K track bicubic does not include scale X5''), example_world)"
    using e t by (simp add: get_dir_def b str_int_def str_nat.simps digit_char_def)
  from a b c d e f show ?thesis by blast
qed

theorem lookup_error_messages_witness:
  "map_of (track_dirs Set5) (''unknown'', ''val'', 2) = None
   \<and> get_dir example_runtime Set5 example_dataset ''unknown'' ''val'' 2 example_world
       = (Inl (ValueError (''Track unknown does not exist. Use one of ''
                           @ str_list example_runtime [''bicubic'', ''hr''])), example_world)
   \<and> sublist (repr_str example_runtime ''bicubic'')
        (''Track unknown does not exist. Use one of '' @ str_list example_runtime [''bicubic'', ''hr''])
   \<and> sublist (repr_str example_runtime ''hr'')
        (''Track unknown does not exist. Use one of '' @ str_list example_runtime [''bicubic'', ''hr''])"
proof -
  have a: "map_of (track_dirs Set5) (''unknown'', ''val'', 2) = None"
    by (simp add: Set5_def Set5_track_dirs_def)
  have ts: "get_tracks Set5 = {''bicubic'', ''hr''}"
    by (auto simp: get_tracks_def Set5_def Set5_track_dirs_def)
  have l: "list_of_set example_runtime (get_tracks Set5) = [''bicubic'', ''hr'']"
    by (simp add: ts example_runtime_def)
  have n: "''unknown'' \<notin> get_tracks Set5"
    by (simp add: ts)
  from lookup_error_messages [OF a refl, of example_runtime example_dataset example_world] n
  show ?thesis using a by (simp add: l)
qed

text \<open>
  Claim C6. When the high-resolution directory and the directory of track
  \<^verbatim>\<open>bicubic\<close> at scale 2 hold three files each, constructing the dataset for that track
  and scale (no transform, no download) succeeds, its length is 3, and index 0 loads
  the lexicographically first file of the high-resolution directory, then the
  lexicographically first file of the low-resolution directory.
\<close>

theorem example_pairing:
  assumes "map_of (track_dirs cls) (''hr'', sp, 1) = Some hr"
    and "map_of (track_dirs cls) (''bicubic'', sp, 2) = Some lr"
    and "hr_dir = os_path_join (expanduser rt root0) [hr]"
    and "lr_dir = os_path_join (expanduser rt root0) [lr]"
    and "files w hr_dir = Some [h1, h2, h3]"
    and "files w lr_dir = Some [l1, l2, l3]"
  shows "\<exists>self w'. FolderByDir_init rt cls root0 (ScaleInt 2) (TrackStr ''bicubic'') sp
                      None ld False w = (Inr self, w')
          \<and> Folder_len self = 3
          \<and> Folder_getitem self 0
              = load_all ld [os_path_join hr_dir [Min {h1, h2, h3}],
                             os_path_join lr_dir [Min {l1, l2, l3}]]"
proof -
  let ?fresh = "new_self rt root0 [2] [''bicubic''] sp None ld"
  let ?w1 = "w\<lparr>trace := trace w @ [ListDir hr_dir]\<rparr>"
  let ?w2 = "?w1\<lparr>trace := trace ?w1 @ [ListDir lr_dir]\<rparr>"
  let ?s0 = "sorted_paths hr_dir [h1, h2, h3]"
  let ?s1 = "sorted_paths lr_dir [l1, l2, l3]"
  have at: "all_tracks cls ?fresh = [(''hr'', 1), (''bicubic'', 2)]"
    using assms(1) by (simp add: all_tracks_def)
  have hrd: "lookup_dir cls (root ?fresh) ''hr'' (split ?fresh) 1 = Some hr_dir"
    using assms(1,3) by (simp add: lookup_dir_def)
  have lrd: "lookup_dir cls (root ?fresh) ''bicubic'' (split ?fresh) 2 = Some lr_dir"
    using assms(2,4) by (simp add: lookup_dir_def)
  have l1: "list_samples rt cls ?fresh ''hr'' sp 1 w = (Inr ?s0, ?w1)"
    using list_samples_supported [OF hrd, of rt w] assms(5) by simp
  have "files ?w1 lr_dir = Some [l1, l2, l3]" using assms(6) by simp
  then have l2: "list_samples rt cls ?fresh ''bicubic'' sp 2 ?w1 = (Inr ?s1, ?w2)"
    using list_samples_supported [OF lrd, of rt ?w1] by simp
  have lt: "list_tracks rt cls ?fresh (all_tracks cls ?fresh) w = (Inr [?s0, ?s1], ?w2)"
    unfolding at by (simp add: l1 l2)
  have len: "\<forall>s\<in>set [?s1]. length s = length ?s0"
    by (simp add: sorted_paths_def)
  let ?built = "?fresh\<lparr>samples := map (\<lambda>i. map (\<lambda>s. s ! i) [?s0, ?s1]) [0..<length ?s0]\<rparr>"
  from init_samples_succeeds [OF lt len]
  have ini: "init_samples rt cls ?fresh w = (Inr (), ?built, ?w2)" .
  have con: "FolderByDir_init rt cls root0 (ScaleInt 2) (TrackStr ''bicubic'') sp None ld False w
               = (Inr ?built, ?w2)"
    by (simp add: FolderByDir_init_def scale_list_def track_list_def ini)
  have n0: "length ?s0 = 3" by (simp add: sorted_paths_def)
  have flen: "Folder_len ?built = 3"
    by (simp add: Folder_len_def n0)
  have "[0..<length ?s0] = 0 # [1..<3]"
    unfolding n0 by (simp add: upt_conv_Cons)
  then have first: "samples ?built ! 0 = [?s0 ! 0, ?s1 ! 0]"
    by simp
  have a: "?s0 ! 0 = os_path_join hr_dir [Min {h1, h2, h3}]"
    using sort_first_Min [of "[h1, h2, h3]"] by (simp add: sorted_paths_def)
  have b: "?s1 ! 0 = os_path_join lr_dir [Min {l1, l2, l3}]"
    using sort_first_Min [of "[l1, l2, l3]"] by (simp add: sorted_paths_def)
  have "Folder_getitem ?built 0 = load_all ld (samples ?built ! 0)"
    unfolding Folder_getitem_def Let_def by (simp add: n0 split: sum.splits)
  also have "\<dots> = load_all ld [os_path_join hr_dir [Min {h1, h2, h3}],
                             os_path_join lr_dir [Min {l1, l2, l3}]]"
    unfolding first a b ..
  finally show ?thesis using con flen by blast
qed

theorem example_pairing_witness:
  "map_of (track_dirs Set5) (''hr'', ''val'', 1) = Some ''benchmark/Set5/HR''
   \<and> map_of (track_dirs Set5) (''bicubic'', ''val'', 2) = Some ''benchmark/Set5/LR_bicubic/X2''
   \<and> files example_world ''/data/SRBenchmarks/benchmark/Set5/HR''
        = Some [''b.png'', ''c.png'', ''a.png'']
   \<and> files example_world ''/data/SRBenchmarks/benchmark/Set5/LR_bicubic/X2''
        = Some [''cx2.png'', ''ax2.png'', ''bx2.png'']
   \<and> (\<exists>self w'. FolderByDir_init example_runtime Set5 ''/data/SRBenchmarks'' (ScaleInt 2)
          (TrackStr ''bicubic'') ''val'' None Inr False example_world = (Inr self, w')
        \<and> Folder_len self = 3
        \<and> Folder_getitem self 0
            = Inr [''/data/SRBenchmarks/benchmark/Set5/HR/a.png'',
                   ''/data/SRBenchmarks/benchmark/Set5/LR_bicubic/X2/ax2.png''])"
proof -
  have a: "map_of (track_dirs Set5) (''hr'', ''val'', 1) = Some ''benchmark/Set5/HR''"
    by (simp add: Set5_def Set5_track_dirs_def os_path_join_def join_step_def)
  have b: "map_of (track_dirs Set5) (''bicubic'', ''val'', 2) = Some ''benchmark/Set5/LR_bicubic/X2''"
    by (simp add: Set5_def Set5_track_dirs_def os_path_join_def join_step_def)
  have c: "''/data/SRBenchmarks/benchmark/Set5/HR''
             = os_path_join (expanduser example_runtime ''/data/SRBenchmarks'') [''benchmark/Set5/HR'']"
    by (simp add: example_runtime_def os_path_join_def join_step_def)
  have d: "''/data/SRBenchmarks/benchmark/Set5/LR_bicubic/X2''
             = os_path_join (expanduser example_runtime ''/data/SRBenchmarks'')
                 [''benchmark/Set5/LR_bicubic/X2'']"
    by (simp add: example_runtime_def os_path_join_def join_step_def)
  have e: "files example_world ''/data/SRBenchmarks/benchmark/Set5/HR''
        = Some [''b.png'', ''c.png'', ''a.png'']"
    by (simp add: example_world_def example_tree_def)
  have f: "files example_world ''/data/SRBenchmarks/benchmark/Set5/LR_bicubic/X2''
        = Some [''cx2.png'', ''ax2.png'', ''bx2.png'']"
    by (simp add: example_world_def example_tree_def)
  have m1: "Min {''b.png'', ''c.png'', ''a.png''} = ''a.png''"
    by simp
  have m2: "Min {''cx2.png'', ''ax2.png'', ''bx2.png''} = ''ax2.png''"
    by simp
  from example_pairing [OF a b c d e f, of Inr] a b e f show ?thesis
    by (simp add: m1 m2 os_path_join_def join_step_def)
qed

text \<open>
  Claim C7. For a key of \<^verbatim>\<open>track_dirs\<close>, \<^verbatim>\<open>get_dir\<close> returns the root joined with the
  directory of the table; for any other key it raises; and it leaves the world as it
  is: no directory is listed, nothing is downloaded.
\<close>

theorem get_dir_resolves:
  "(\<forall>d. map_of (track_dirs cls) (track, sp, scale) = Some d \<longrightarrow>
       fst (get_dir rt cls self track sp scale w) = Inr (os_path_join (root self) [d]))
   \<and> (map_of (track_dirs cls) (track, sp, scale) = None \<longrightarrow>
       (\<exists>m. fst (get_dir rt cls self track sp scale w) = Inl (ValueError m)))
   \<and> snd (get_dir rt cls self track sp scale w) = w"
  by (auto simp: get_dir_def split: option.splits)

theorem get_dir_resolves_witness:
  "map_of (track_dirs Div2K) (''bicubic'', ''train'', 2) = Some ''DIV2K_train_LR_bicubic/X2''
   \<and> fst (get_dir example_runtime Div2K example_dataset ''bicubic'' ''train'' 2 example_world)
       = Inr ''/data/SRBenchmarks/DIV2K_train_LR_bicubic/X2''
   \<and> map_of (track_dirs Div2K) (''bicubic'', ''test'', 8) = None
   \<and> (\<exists>m. fst (get_dir example_runtime Div2K example_dataset ''bicubic'' ''test'' 8 example_world)
          = Inl (ValueError m))"
proof -
  have a: "map_of (track_dirs Div2K) (''bicubic'', ''train'', 2) = Some ''DIV2K_train_LR_bicubic/X2''"
    by (simp add: Div2K_def Div2K_track_dirs_def os_path_join_def join_step_def)
  have b: "map_of (track_dirs Div2K) (''bicubic'', ''test'', 8) = None"
    by (simp add: Div2K_def Div2K_track_dirs_def)
  have r: "root example_dataset = ''/data/SRBenchmarks''"
    by (simp add: example_dataset_def example_runtime_def)
  from get_dir_resolves [of Div2K "''bicubic''" "''train''" 2 example_runtime example_dataset example_world]
       get_dir_resolves [of Div2K "''bicubic''" "''test''" 8 example_runtime example_dataset example_world]
       a b
  show ?thesis by (simp add: r os_path_join_def join_step_def)
qed



text \<open>
  Claim C9, amended. After a successful construction every sample holds the same number of
  paths: the number of requested (track, scale) pairs, plus one when the high-resolution
  entry of the split is a key of \<^verbatim>\<open>track_dirs\<close>. For every valid index (negative
  indices included): when the loader succeeds on the paths of the indexed sample,
  \<^verbatim>\<open>__getitem__\<close> returns the list of that many loaded images when no transform is
  configured, and what the transform returns for that list when one is configured; when
  the loader raises on one of these paths, \<^verbatim>\<open>__getitem__\<close> raises.
\<close>

theorem tuple_length:
  assumes con: "FolderByDir_init rt cls root0 scale0 track0 sp tf ld dl w = (Inr self, w')"
    and n: "n = length (scale_list scale0)
               + (if map_of (track_dirs cls) (''hr'', sp, 1) \<noteq> None then 1 else 0)"
  shows "(\<forall>sample\<in>set (samples self). length sample = n)
       \<and> (\<forall>index sample.
            - int (Folder_len self) \<le> index \<and> index < int (Folder_len self)
            \<and> sample = samples self ! nat (if index < 0 then int (Folder_len self) + index
                                            else index)
            \<longrightarrow> length sample = n
              \<and> ((\<forall>p\<in>set sample. \<exists>img. ld p = Inr img) \<longrightarrow>
                   (\<exists>imgs. length imgs = n \<and> map ld sample = map Inr imgs
                      \<and> Folder_getitem self index
                          = (case tf of None \<Rightarrow> Inr imgs | Some f \<Rightarrow> f imgs)))
              \<and> ((\<exists>p\<in>set sample. \<exists>e. ld p = Inl e) \<longrightarrow>
                   (\<exists>e. Folder_getitem self index = Inl e)))"
proof -
  from construction_success [OF con] obtain s0 rest where
    l2: "list_all2 (\<lambda>(t, s) l. \<exists>p names. lookup_dir cls (expanduser rt root0) t sp s = Some p
                    \<and> files w' p = Some names \<and> l = sorted_paths p names)
       ((if supported cls sp (''hr'', 1) then [(''hr'', 1)] else [])
          @ zip (track_list track0 (scale_list scale0)) (scale_list scale0))
       (s0 # rest)" and
    smp: "samples self = map (\<lambda>i. map (\<lambda>s. s ! i) (s0 # rest)) [0..<length s0]" and
    tf: "transform self = tf" and ld: "loader self = ld" and
    len: "length (track_list track0 (scale_list scale0)) = length (scale_list scale0)"
    by blast
  from list_all2_lengthD [OF l2] len have "length (s0 # rest) = n"
    by (auto simp: n supported_iff split: if_splits)
  then have rows: "\<forall>sample\<in>set (samples self). length sample = n"
    unfolding smp by simp
  have idx: "length sample = n
              \<and> ((\<forall>p\<in>set sample. \<exists>img. ld p = Inr img) \<longrightarrow>
                   (\<exists>imgs. length imgs = n \<and> map ld sample = map Inr imgs
                      \<and> Folder_getitem self index
                          = (case tf of None \<Rightarrow> Inr imgs | Some f \<Rightarrow> f imgs)))
              \<and> ((\<exists>p\<in>set sample. \<exists>e. ld p = Inl e) \<longrightarrow>
                   (\<exists>e. Folder_getitem self index = Inl e))"
    if v: "- int (Folder_len self) \<le> index" "index < int (Folder_len self)"
      and s: "sample = samples self ! nat (if index < 0 then int (Folder_len self) + index
                                            else index)"
    for index sample
  proof -
    from v have v': "- int (length (samples self)) \<le> index" "index < int (length (samples self))"
      by (simp_all add: Folder_len_def)
    from s have s': "samples self ! nat (if index < 0 then int (length (samples self)) + index
                                        else index) = sample"
      by (simp add: Folder_len_def)
    from getitem_valid_index [OF v'] have mem: "sample \<in> set (samples self)"
      unfolding s' [symmetric] by (rule nth_mem)
    have g: "Folder_getitem self index =
           (case load_all ld sample of
              Inl e \<Rightarrow> Inl e
            | Inr images \<Rightarrow> (case tf of None \<Rightarrow> Inr images | Some f \<Rightarrow> f images))"
      using getitem_valid [OF v'] unfolding s' tf ld .
    from rows mem have sl: "length sample = n" by blast
    have ok: "\<exists>imgs. length imgs = n \<and> map ld sample = map Inr imgs
                      \<and> Folder_getitem self index
                          = (case tf of None \<Rightarrow> Inr imgs | Some f \<Rightarrow> f imgs)"
      if "\<forall>p\<in>set sample. \<exists>img. ld p = Inr img"
    proof -
      from load_all_success [OF that] obtain imgs where
        i: "load_all ld sample = Inr imgs" "map ld sample = map Inr imgs"
        by blast
      from i(2) have "length sample = length imgs" by (rule map_eq_imp_length_eq)
      with sl i g show ?thesis by (intro exI [of _ imgs]) simp
    qed
    have bad: "\<exists>e. Folder_getitem self index = Inl e"
      if "\<exists>p\<in>set sample. \<exists>e. ld p = Inl e"
      using load_all_failure [OF that] g by auto
    from sl ok bad show ?thesis by blast
  qed
  from rows idx show ?thesis by blast
qed

text \<open>
  Claim C9 as stated fails: with a transform that keeps the first image only, the samples
  hold two paths each, and index 0 returns a list of one image.
\<close>

theorem tuple_length_counterexample:
  "FolderByDir_init example_runtime Set5 ''/data/SRBenchmarks'' (ScaleInt 2)
     (TrackStr ''bicubic'') ''val'' (Some first_only) Inr False example_world
   = (Inr (example_dataset\<lparr>transform := Some first_only\<rparr>), example_listed)
   \<and> map_of (track_dirs Set5) (''hr'', ''val'', 1) \<noteq> None
   \<and> length (scale_list (ScaleInt 2)) + 1 = 2
   \<and> Folder_getitem (example_dataset\<lparr>transform := Some first_only\<rparr>) 0
       = Inr [''/data/SRBenchmarks/benchmark/Set5/HR/a.png'']"
  by (simp add: eval_defs example_dataset_def example_listed_def Folder_getitem_def
        first_only_def new_self_def Folder_init_def folder.defs folder_by_dir.defs)

theorem tuple_length_witness:
  "FolderByDir_init example_runtime Set5 ''/data/SRBenchmarks'' (ScaleInt 2)
     (TrackStr ''bicubic'') ''val'' None Inr False example_world
   = (Inr example_dataset, example_listed)
   \<and> map length (samples example_dataset) = [2, 2, 2]
   \<and> Folder_getitem example_dataset 0
       = Inr [''/data/SRBenchmarks/benchmark/Set5/HR/a.png'',
              ''/data/SRBenchmarks/benchmark/Set5/LR_bicubic/X2/ax2.png'']
   \<and> FolderByDir_init example_runtime Set5 ''/data/SRBenchmarks'' (ScaleInt 2)
        (TrackStr ''bicubic'') ''val'' (Some doubled) Inr False example_world
      = (Inr (example_dataset\<lparr>transform := Some doubled\<rparr>), example_listed)
   \<and> Folder_getitem (example_dataset\<lparr>transform := Some doubled\<rparr>) (- 1)
       = doubled [''/data/SRBenchmarks/benchmark/Set5/HR/c.png'',
                     ''/data/SRBenchmarks/benchmark/Set5/LR_bicubic/X2/cx2.png'']
   \<and> map_of (track_dirs Div2K) (''hr'', ''test'', 1) = None
   \<and> FolderByDir_init example_runtime Div2K ''/data/DIV2K'' (ScaleList [2, 2])
        (TrackList [''bicubic'', ''unknown'']) ''test'' None Inr False example_test_world
      = (Inr example_test_dataset, example_test_listed)
   \<and> map length (samples example_test_dataset) = [2, 2]
   \<and> Folder_getitem example_test_dataset 1
       = Inr [''/data/DIV2K/DIV2K_test_LR_bicubic/X2/0902x2.png'',
              ''/data/DIV2K/DIV2K_test_LR_unknown/X2/0902x2.png'']"
proof -
  have n: "(2::nat) = length (scale_list (ScaleInt 2))
               + (if map_of (track_dirs Set5) (''hr'', ''val'', 1) \<noteq> None then 1 else 0)"
    by (simp add: Set5_def Set5_track_dirs_def scale_list_def)
  have nohr: "map_of (track_dirs Div2K) (''hr'', ''test'', 1) = None"
    by (simp add: Div2K_def Div2K_track_dirs_def)
  have n': "(2::nat) = length (scale_list (ScaleList [2, 2]))
               + (if map_of (track_dirs Div2K) (''hr'', ''test'', 1) \<noteq> None then 1 else 0)"
    by (simp add: nohr scale_list_def)
  note a = tuple_length [OF example_construction n]
  note b = tuple_length [OF example_transform_construction n]
  note c = tuple_length [OF example_test_construction n']
  have rowsa: "map length (samples example_dataset) = [2, 2, 2]"
    by (simp add: example_dataset_def)
  have rowsc: "map length (samples example_test_dataset) = [2, 2]"
    by (simp add: example_test_dataset_def)
  have va: "- int (Folder_len (example_dataset)) \<le> 0 \<and> 0 < int (Folder_len (example_dataset))
      \<and> [''/data/SRBenchmarks/benchmark/Set5/HR/a.png'',
              ''/data/SRBenchmarks/benchmark/Set5/LR_bicubic/X2/ax2.png'']
          = samples (example_dataset) ! nat (if (0::int) < 0 then int (Folder_len (example_dataset)) + 0 else 0)"
    by (simp add: Folder_len_def example_dataset_def example_test_dataset_def)
  have la: "\<forall>p\<in>set ([''/data/SRBenchmarks/benchmark/Set5/HR/a.png'',
              ''/data/SRBenchmarks/benchmark/Set5/LR_bicubic/X2/ax2.png'']). \<exists>img. (Inr p :: error + string) = Inr img"
    by simp
  from a [THEN conjunct2, rule_format, OF va]
  have "(\<forall>p\<in>set ([''/data/SRBenchmarks/benchmark/Set5/HR/a.png'',
              ''/data/SRBenchmarks/benchmark/Set5/LR_bicubic/X2/ax2.png'']). \<exists>img. (Inr p :: error + string) = Inr img) \<longrightarrow>
          (\<exists>imgs. length imgs = 2 \<and> map Inr ([''/data/SRBenchmarks/benchmark/Set5/HR/a.png'',
              ''/data/SRBenchmarks/benchmark/Set5/LR_bicubic/X2/ax2.png'']) = map (Inr :: string \<Rightarrow> error + string) imgs
             \<and> Folder_getitem (example_dataset) (0) = (case None of None \<Rightarrow> Inr imgs | Some f \<Rightarrow> f imgs))"
    by blast
  with la obtain imgsa where
    ma: "map Inr ([''/data/SRBenchmarks/benchmark/Set5/HR/a.png'',
              ''/data/SRBenchmarks/benchmark/Set5/LR_bicubic/X2/ax2.png'']) = map (Inr :: string \<Rightarrow> error + string) imgsa" and
    ra: "Folder_getitem (example_dataset) (0) = (case None of None \<Rightarrow> Inr imgsa | Some f \<Rightarrow> f imgsa)"
    by blast
  from ma inj_map_eq_map [OF inj_Inr, of "[''/data/SRBenchmarks/benchmark/Set5/HR/a.png'',
              ''/data/SRBenchmarks/benchmark/Set5/LR_bicubic/X2/ax2.png'']" imgsa]
  have "imgsa = [''/data/SRBenchmarks/benchmark/Set5/HR/a.png'',
              ''/data/SRBenchmarks/benchmark/Set5/LR_bicubic/X2/ax2.png'']"
    by blast
  with ra have ga: "Folder_getitem example_dataset 0
       = Inr [''/data/SRBenchmarks/benchmark/Set5/HR/a.png'',
              ''/data/SRBenchmarks/benchmark/Set5/LR_bicubic/X2/ax2.png'']"
    by simp
  have vb: "- int (Folder_len (example_dataset\<lparr>transform := Some doubled\<rparr>)) \<le> - 1 \<and> - 1 < int (Folder_len (example_dataset\<lparr>transform := Some doubled\<rparr>))
      \<and> [''/data/SRBenchmarks/benchmark/Set5/HR/c.png'',
              ''/data/SRBenchmarks/benchmark/Set5/LR_bicubic/X2/cx2.png'']
          = samples (example_dataset\<lparr>transform := Some doubled\<rparr>) ! nat (if (- 1::int) < 0 then int (Folder_len (example_dataset\<lparr>transform := Some doubled\<rparr>)) + - 1 else - 1)"
    by (simp add: Folder_len_def example_dataset_def example_test_dataset_def)
  have lb: "\<forall>p\<in>set ([''/data/SRBenchmarks/benchmark/Set5/HR/c.png'',
              ''/data/SRBenchmarks/benchmark/Set5/LR_bicubic/X2/cx2.png'']). \<exists>img. (Inr p :: error + string) = Inr img"
    by simp
  from b [THEN conjunct2, rule_format, OF vb]
  have "(\<forall>p\<in>set ([''/data/SRBenchmarks/benchmark/Set5/HR/c.png'',
              ''/data/SRBenchmarks/benchmark/Set5/LR_bicubic/X2/cx2.png'']). \<exists>img. (Inr p :: error + string) = Inr img) \<longrightarrow>
          (\<exists>imgs. length imgs = 2 \<and> map Inr ([''/data/SRBenchmarks/benchmark/Set5/HR/c.png'',
              ''/data/SRBenchmarks/benchmark/Set5/LR_bicubic/X2/cx2.png'']) = map (Inr :: string \<Rightarrow> error + string) imgs
             \<and> Folder_getitem (example_dataset\<lparr>transform := Some doubled\<rparr>) (- 1) = (case Some doubled of None \<Rightarrow> Inr imgs | Some f \<Rightarrow> f imgs))"
    by blast
  with lb obtain imgsb where
    mb: "map Inr ([''/data/SRBenchmarks/benchmark/Set5/HR/c.png'',
              ''/data/SRBenchmarks/benchmark/Set5/LR_bicubic/X2/cx2.png'']) = map (Inr :: string \<Rightarrow> error + string) imgsb" and
    rb: "Folder_getitem (example_dataset\<lparr>transform := Some doubled\<rparr>) (- 1) = (case Some doubled of None \<Rightarrow> Inr imgsb | Some f \<Rightarrow> f imgsb)"
    by blast
  from mb inj_map_eq_map [OF inj_Inr, of "[''/data/SRBenchmarks/benchmark/Set5/HR/c.png'',
              ''/data/SRBenchmarks/benchmark/Set5/LR_bicubic/X2/cx2.png'']" imgsb]
  have "imgsb = [''/data/SRBenchmarks/benchmark/Set5/HR/c.png'',
              ''/data/SRBenchmarks/benchmark/Set5/LR_bicubic/X2/cx2.png'']"
    by blast
  with rb have gb: "Folder_getitem (example_dataset\<lparr>transform := Some doubled\<rparr>) (- 1)
       = doubled [''/data/SRBenchmarks/benchmark/Set5/HR/c.png'',
              ''/data/SRBenchmarks/benchmark/Set5/LR_bicubic/X2/cx2.png'']"
    by simp
  have vc: "- int (Folder_len (example_test_dataset)) \<le> 1 \<and> 1 < int (Folder_len (example_test_dataset))
      \<and> [''/data/DIV2K/DIV2K_test_LR_bicubic/X2/0902x2.png'',
              ''/data/DIV2K/DIV2K_test_LR_unknown/X2/0902x2.png'']
          = samples (example_test_dataset) ! nat (if (1::int) < 0 then int (Folder_len (example_test_dataset)) + 1 else 1)"
    by (simp add: Folder_len_def example_dataset_def example_test_dataset_def)
  have lc: "\<forall>p\<in>set ([''/data/DIV2K/DIV2K_test_LR_bicubic/X2/0902x2.png'',
              ''/data/DIV2K/DIV2K_test_LR_unknown/X2/0902x2.png'']). \<exists>img. (Inr p :: error + string) = Inr img"
    by simp
  from c [THEN conjunct2, rule_format, OF vc]
  have "(\<forall>p\<in>set ([''/data/DIV2K/DIV2K_test_LR_bicubic/X2/0902x2.png'',
              ''/data/DIV2K/DIV2K_test_LR_unknown/X2/0902x2.png'']). \<exists>img. (Inr p :: error + string) = Inr img) \<longrightarrow>
          (\<exists>imgs. length imgs = 2 \<and> map Inr ([''/data/DIV2K/DIV2K_test_LR_bicubic/X2/0902x2.png'',
              ''/data/DIV2K/DIV2K_test_LR_unknown/X2/0902x2.png'']) = map (Inr :: string \<Rightarrow> error + string) imgs
             \<and> Folder_getitem (example_test_dataset) (1) = (case None of None \<Rightarrow> Inr imgs | Some f \<Rightarrow> f imgs))"
    by blast
  with lc obtain imgsc where
    mc: "map Inr ([''/data/DIV2K/DIV2K_test_LR_bicubic/X2/0902x2.png'',
              ''/data/DIV2K/DIV2K_test_LR_unknown/X2/0902x2.png'']) = map (Inr :: string \<Rightarrow> error + string) imgsc" and
    rc: "Folder_getitem (example_test_dataset) (1) = (case None of None \<Rightarrow> Inr imgsc | Some f \<Rightarrow> f imgsc)"
    by blast
  from mc inj_map_eq_map [OF inj_Inr, of "[''/data/DIV2K/DIV2K_test_LR_bicubic/X2/0902x2.png'',
              ''/data/DIV2K/DIV2K_test_LR_unknown/X2/0902x2.png'']" imgsc]
  have "imgsc = [''/data/DIV2K/DIV2K_test_LR_bicubic/X2/0902x2.png'',
              ''/data/DIV2K/DIV2K_test_LR_unknown/X2/0902x2.png'']"
    by blast
  with rc have gc: "Folder_getitem example_test_dataset 1
       = Inr [''/data/DIV2K/DIV2K_test_LR_bicubic/X2/0902x2.png'',
              ''/data/DIV2K/DIV2K_test_LR_unknown/X2/0902x2.png'']"
    by simp
  from example_construction example_transform_construction example_test_construction
       rowsa rowsc ga gb gc nohr
  show ?thesis by blast
qed

text \<open>
  Claim C10. When \<^verbatim>\<open>init_samples\<close> raises the count-mismatch error, the object is
  unchanged; called from the constructor, \<^verbatim>\<open>self.samples\<close> is still the empty list
  that \<^verbatim>\<open>Folder.__init__\<close> has set.
\<close>

theorem mismatch_keeps_samples:
  assumes "init_samples rt cls self w = (Inl (ValueError (mismatch_message t s)), self', w')"
  shows "self' = self
       \<and> (self = new_self rt root0 sc tr sp tf ld \<longrightarrow> samples self' = [])"
  using init_samples_Inl [OF assms] by auto

theorem mismatch_keeps_samples_witness:
  "init_samples example_runtime Set5
     (new_self example_runtime ''/data/SRBenchmarks'' [3] [''bicubic''] ''val'' None Inr) example_world
   = (Inl (ValueError (mismatch_message ''bicubic'' 3)),
      new_self example_runtime ''/data/SRBenchmarks'' [3] [''bicubic''] ''val'' None Inr,
      example_world\<lparr>trace := [ListDir ''/data/SRBenchmarks/benchmark/Set5/HR'',
                               ListDir ''/data/SRBenchmarks/benchmark/Set5/LR_bicubic/X3'']\<rparr>)
   \<and> samples (new_self example_runtime ''/data/SRBenchmarks'' [3] [''bicubic''] ''val'' None
                (Inr :: string \<Rightarrow> error + string)) = []"
proof -
  have h: "init_samples example_runtime Set5
     (new_self example_runtime ''/data/SRBenchmarks'' [3] [''bicubic''] ''val'' None Inr) example_world
   = (Inl (ValueError (mismatch_message ''bicubic'' 3)),
      new_self example_runtime ''/data/SRBenchmarks'' [3] [''bicubic''] ''val'' None
         (Inr :: string \<Rightarrow> error + string),
      example_world\<lparr>trace := [ListDir ''/data/SRBenchmarks/benchmark/Set5/HR'',
                               ListDir ''/data/SRBenchmarks/benchmark/Set5/LR_bicubic/X3'']\<rparr>)"
    by (simp add: eval_defs)
  from mismatch_keeps_samples [OF h, of "''/data/SRBenchmarks''" "[3]" "[''bicubic'']" "''val''" None Inr] h
  show ?thesis by simp
qed

end
